theory Spec2Isabelle
  imports Complex_Main "HOL-Library.Word"
begin

section \<open>Hardware Stress Testing Tool: system monitor\<close>

text \<open>
  A shallow embedding of \<^verbatim>\<open>src/main.cpp\<close>. A \<^verbatim>\<open>QString\<close> is a \<open>string\<close>
  whose characters stand for the code units U+0000 to U+00FF; \<^verbatim>\<open>quint64\<close>,
  \<^verbatim>\<open>qulonglong\<close> and \<^verbatim>\<open>unsigned long long\<close> are \<open>64 word\<close>, so that
  \<open>+\<close>, \<open>-\<close> and \<open>*\<close> wrap around as they do in C++. A \<^verbatim>\<open>double\<close> is a
  \<open>real\<close>: the conversions \<^verbatim>\<open>double(x)\<close> and the quotients are exact in the model.
  A \<^verbatim>\<open>QByteArray\<close> read from a child process and the content of a file are a
  \<open>string\<close> too, one character for each byte.
\<close>

type_synonym quint64 = "64 word"

subsection \<open>\<^verbatim>\<open>CpuSnapshot\<close>, \<^verbatim>\<open>readCpu\<close>, \<^verbatim>\<open>cpuPercent\<close>\<close>

record CpuSnapshot =
  user :: quint64
  nice :: quint64
  sys :: quint64
  idle :: quint64
  iowait :: quint64
  irq :: quint64
  softirq :: quint64
  steal :: quint64
  guest :: quint64
  guest_nice :: quint64

text \<open>
  What one \<^verbatim>\<open>readCpu()\<close> finds: \<^verbatim>\<open>/proc/stat\<close> cannot be opened, or its first
  line gives the stream a first token and the ten numbers that follow it.
\<close>

datatype proc_stat = StatUnreadable | StatLine string CpuSnapshot

fun readCpu :: "proc_stat \<Rightarrow> CpuSnapshot option" where
  "readCpu StatUnreadable = None"
| "readCpu (StatLine cpu s) = (if cpu \<noteq> ''cpu'' then None else Some s)"

text \<open>
  \<^verbatim>\<open>static auto prev = readCpu();\<close> is state that outlives the call: \<open>None\<close> before
  the first call, then \<open>Some\<close> of the stored optional snapshot. The first call reads
  \<^verbatim>\<open>/proc/stat\<close> twice, once for the initialiser and once for \<^verbatim>\<open>now\<close>; every
  later call reads it once. \<open>cpuPercent st f0 f\<close> takes the file as the initialiser
  would find it (\<open>f0\<close>, read only when \<open>st = None\<close>) and as \<^verbatim>\<open>now\<close> finds it.
\<close>

type_synonym cpu_static = "CpuSnapshot option option"

definition deltaIdle :: "CpuSnapshot \<Rightarrow> CpuSnapshot \<Rightarrow> quint64" where
  "deltaIdle prev now = (idle now + iowait now) - (idle prev + iowait prev)"

definition nonIdle :: "CpuSnapshot \<Rightarrow> quint64" where
  "nonIdle s = user s + nice s + sys s + irq s + softirq s + steal s"

definition deltaNon :: "CpuSnapshot \<Rightarrow> CpuSnapshot \<Rightarrow> quint64" where
  "deltaNon prev now = nonIdle now - nonIdle prev"

definition staticPrev :: "cpu_static \<Rightarrow> proc_stat \<Rightarrow> CpuSnapshot option" where
  "staticPrev st f0 = (case st of None \<Rightarrow> readCpu f0 | Some p \<Rightarrow> p)"

definition cpuPercent :: "cpu_static \<Rightarrow> proc_stat \<Rightarrow> proc_stat \<Rightarrow> real \<times> cpu_static" where
  "cpuPercent st f0 f =
     (let prev = staticPrev st f0;
          now = readCpu f
      in case (prev, now) of
           (Some p, Some n) \<Rightarrow>
             (let total = deltaIdle p n + deltaNon p n
              in if total \<le> 0 then (0, Some now)
                 else (real (unat (deltaNon p n)) / real (unat total) * 100, Some now))
         | _ \<Rightarrow> (0, Some prev))"

subsection \<open>\<^verbatim>\<open>memPercent\<close>\<close>

text \<open>
  \<^verbatim>\<open>QString::split(QRegularExpression("\\s+"), Qt::SkipEmptyParts)\<close>: the maximal
  runs of characters that are not white space, where \<^verbatim>\<open>\s\<close> is the white space of
  the regular expression (space, tab, line feed, vertical tab, form feed, carriage return).
\<close>

definition isRegexSpace :: "char \<Rightarrow> bool" where
  "isRegexSpace c = (c = CHR '' '' \<or> c = CHR 0x09 \<or> c = CHR 0x0A \<or> c = CHR 0x0B
                     \<or> c = CHR 0x0C \<or> c = CHR 0x0D)"

fun splitSkipEmpty :: "string \<Rightarrow> string \<Rightarrow> string list" where
  "splitSkipEmpty [] cur = (if cur = [] then [] else [cur])"
| "splitSkipEmpty (c # cs) cur =
     (if isRegexSpace c
      then (if cur = [] then splitSkipEmpty cs [] else cur # splitSkipEmpty cs [])
      else splitSkipEmpty cs (cur @ [c]))"

text \<open>
  One turn of the \<^verbatim>\<open>while (!f.atEnd())\<close> loop. \<open>toULongLong\<close> is Qt's
  \<^verbatim>\<open>QString::toULongLong(&ok)\<close>, a parameter of the model: \<open>None\<close> when it sets
  \<^verbatim>\<open>ok\<close> to false. \<^verbatim>\<open>parts[0].remove(':')\<close> drops every colon of the key.
\<close>

definition meminfoLine :: "(string \<Rightarrow> quint64 option) \<Rightarrow> string \<Rightarrow> (string \<times> quint64) option" where
  "meminfoLine toULongLong line =
     (let parts = splitSkipEmpty line []
      in if length parts \<ge> 2
         then (case toULongLong (parts ! 1) of
                 Some kB \<Rightarrow> Some (filter (\<lambda>c. c \<noteq> CHR '':'') (parts ! 0), kB)
               | None \<Rightarrow> None)
         else None)"

fun meminfoMap :: "(string \<Rightarrow> quint64 option) \<Rightarrow> string list \<Rightarrow> (string \<rightharpoonup> quint64)
                   \<Rightarrow> (string \<rightharpoonup> quint64)" where
  "meminfoMap toULongLong [] m = m"
| "meminfoMap toULongLong (line # rest) m =
     meminfoMap toULongLong rest
       (case meminfoLine toULongLong line of Some (k, kB) \<Rightarrow> m(k \<mapsto> kB) | None \<Rightarrow> m)"

definition mapValue :: "(string \<rightharpoonup> quint64) \<Rightarrow> string \<Rightarrow> quint64 \<Rightarrow> quint64" where
  "mapValue m k d = (case m k of Some v \<Rightarrow> v | None \<Rightarrow> d)"

text \<open>
  The result of a percent function with two out-parameters: the returned percentage, and
  the values written through \<^verbatim>\<open>usedGiB\<close> and \<^verbatim>\<open>totalGiB\<close> (\<open>None\<close> when the
  function returns before writing them).
\<close>

record usage =
  pct :: real
  gib :: "(real \<times> real) option"

text \<open>
  \<open>memPercent toULongLong f\<close>: \<open>f\<close> is \<^verbatim>\<open>/proc/meminfo\<close>, \<open>None\<close> when it
  cannot be opened, else the lines the loop reads from it. \<^verbatim>\<open>MemTotal - avail_kB\<close> is
  an unsigned difference, converted to \<^verbatim>\<open>double\<close> afterwards.
\<close>

definition memPercent :: "(string \<Rightarrow> quint64 option) \<Rightarrow> string list option \<Rightarrow> usage" where
  "memPercent toULongLong f =
     (case f of
        None \<Rightarrow> \<lparr>pct = 0, gib = None\<rparr>
      | Some lines \<Rightarrow>
          (let m = meminfoMap toULongLong lines Map.empty;
               MemTotal = mapValue m ''MemTotal'' 0;
               avail_kB = mapValue m ''MemAvailable'' 0;
               used_kB = real (unat (MemTotal - avail_kB));
               p = (if MemTotal = 0 then 0 else used_kB / real (unat MemTotal) * 100)
           in \<lparr>pct = p,
               gib = Some (used_kB / 1024 / 1024, real (unat MemTotal) / 1024 / 1024)\<rparr>))"

subsection \<open>\<^verbatim>\<open>rootDiskPercent\<close>\<close>

record statvfs =
  f_blocks :: quint64
  f_frsize :: quint64
  f_bavail :: quint64

text \<open>\<open>rootDiskPercent r\<close>: \<open>r\<close> is \<open>None\<close> when \<^verbatim>\<open>statvfs("/", &s)\<close> fails.\<close>

definition rootDiskPercent :: "statvfs option \<Rightarrow> usage" where
  "rootDiskPercent r =
     (case r of
        None \<Rightarrow> \<lparr>pct = 0, gib = None\<rparr>
      | Some s \<Rightarrow>
          (let total = f_blocks s * f_frsize s;
               avail = f_bavail s * f_frsize s;
               used = total - avail
           in if total = 0 then \<lparr>pct = 0, gib = None\<rparr>
              else \<lparr>pct = real (unat used) / real (unat total) * 100,
                    gib = Some (real (unat used) / (1024 * 1024 * 1024),
                                real (unat total) / (1024 * 1024 * 1024))\<rparr>))"

subsection \<open>Inputs of the monitor used in the statements\<close>

text \<open>
  The spec's data model calls the counters of a snapshot monotonically non-decreasing.
  \<open>counters_advance p n\<close>: none of the eight counters \<^verbatim>\<open>cpuPercent\<close> reads is lower
  in \<open>n\<close> than in \<open>p\<close>. \<open>counters_fit n\<close>: their sum is below \<open>2 ^ 64\<close>, so the sums
  the function forms do not wrap.
\<close>

definition counters_advance :: "CpuSnapshot \<Rightarrow> CpuSnapshot \<Rightarrow> bool" where
  "counters_advance p n =
     (user p \<le> user n \<and> nice p \<le> nice n \<and> sys p \<le> sys n \<and> idle p \<le> idle n
      \<and> iowait p \<le> iowait n \<and> irq p \<le> irq n \<and> softirq p \<le> softirq n
      \<and> steal p \<le> steal n)"

definition counters_fit :: "CpuSnapshot \<Rightarrow> bool" where
  "counters_fit n =
     (unat (user n) + unat (nice n) + unat (sys n) + unat (idle n) + unat (iowait n)
        + unat (irq n) + unat (softirq n) + unat (steal n) < 2 ^ 64)"

text \<open>A snapshot with the given \<open>user\<close> and \<open>idle\<close> counters and all others zero.\<close>

definition snapshot :: "quint64 \<Rightarrow> quint64 \<Rightarrow> CpuSnapshot" where
  "snapshot u i =
     \<lparr>user = u, nice = 0, sys = 0, idle = i, iowait = 0, irq = 0, softirq = 0, steal = 0,
      guest = 0, guest_nice = 0\<rparr>"

text \<open>
  A conversion to put for \<open>toULongLong\<close> at concrete inputs: the unsigned decimal
  numerals below \<open>2 ^ 64\<close>, the form the values of \<^verbatim>\<open>/proc/meminfo\<close> have.
\<close>

definition isDigit :: "char \<Rightarrow> bool" where
  "isDigit c = (48 \<le> (of_char c :: nat) \<and> (of_char c :: nat) \<le> 57)"

fun decNat :: "string \<Rightarrow> nat \<Rightarrow> nat option" where
  "decNat [] acc = Some acc"
| "decNat (c # cs) acc = (if isDigit c then decNat cs (10 * acc + (of_char c - 48)) else None)"

definition decULongLong :: "string \<Rightarrow> quint64 option" where
  "decULongLong s =
     (if s = [] then None
      else case decNat s 0 of
             Some n \<Rightarrow> if n < 2 ^ 64 then Some (of_nat n) else None
           | None \<Rightarrow> None)"

section \<open>Command building\<close>

subsection \<open>Strings\<close>

text \<open>\<^verbatim>\<open>QChar::isSpace\<close> on the characters U+0000 to U+00FF, and \<^verbatim>\<open>QString::trimmed\<close>.\<close>

definition isSpace :: "char \<Rightarrow> bool" where
  "isSpace c = (c = CHR '' '' \<or> c = CHR 0x09 \<or> c = CHR 0x0A \<or> c = CHR 0x0B \<or> c = CHR 0x0C
                \<or> c = CHR 0x0D \<or> c = CHR 0x85 \<or> c = CHR 0xA0)"

definition trimmed :: "string \<Rightarrow> string" where
  "trimmed s = rev (dropWhile isSpace (rev (dropWhile isSpace s)))"

text \<open>\<^verbatim>\<open>QString::number(int)\<close>, also what \<^verbatim>\<open>QTextStream\<close> and \<^verbatim>\<open>arg\<close> print for an \<^verbatim>\<open>int\<close>.\<close>

fun digits :: "nat \<Rightarrow> string" where
  "digits n = (if n < 10 then [''0123456789'' ! n]
               else digits (n div 10) @ [''0123456789'' ! (n mod 10)])"

declare digits.simps [simp del]

definition number :: "int \<Rightarrow> string" where
  "number i = (if i < 0 then CHR ''-'' # digits (nat (- i)) else digits (nat i))"

text \<open>\<^verbatim>\<open>QStringList::join(QChar)\<close>.\<close>

fun join :: "string list \<Rightarrow> char \<Rightarrow> string" where
  "join [] sep = []"
| "join [x] sep = x"
| "join (x # y # ys) sep = x @ sep # join (y # ys) sep"

definition nl :: string where
  "nl = [CHR 0x0A]"

text \<open>
  The character U+2026 of three literals of the source lies outside the model's
  characters; it stands as its three UTF-8 bytes.
\<close>

definition ellipsis :: string where
  "ellipsis = [CHR 0xE2, CHR 0x80, CHR 0xA6]"

definition APP_NAME :: string where
  "APP_NAME = ''Hardware Stress Testing Tool''"

subsection \<open>The window's state\<close>

text \<open>
  \<^verbatim>\<open>testGroup\<close> is an exclusive button group with \<^verbatim>\<open>rbCpu\<close> checked at start, so
  one radio button is checked at a time: the group's state is that button.
\<close>

datatype radio = rbCpu | rbRam | rbGpu | rbDisk | rbNet

text \<open>A \<^verbatim>\<open>QMessageBox\<close> shown to the user: its window title and its message.\<close>

datatype message_box = warning string string | critical string string | question string string

datatype ProcessState = NotRunning | Starting | Running

datatype proc_request = terminate | kill

datatype progress_call = setMinimum int | setMaximum int | setValue int | setRange int int

datatype output_call = append string | insertPlainText string

record QFile =
  fileName :: string
  isOpen :: bool

text \<open>
  The members of \<^verbatim>\<open>MainWindow\<close> that \<^verbatim>\<open>buildCommand\<close> and the process handlers
  read or write. A spin box or line edit is the value it holds, a button is whether it is
  enabled; \<open>progress\<close> and \<open>outputView\<close> (the member \<^verbatim>\<open>output\<close>) are the calls made on the progress bar and the
  output view, oldest first. \<open>procStarted\<close> lists the command lines given to
  \<^verbatim>\<open>proc.start\<close>, \<open>procRequests\<close> the calls of \<^verbatim>\<open>proc.terminate()\<close> and
  \<^verbatim>\<open>proc.kill()\<close>. Two fields are the world the window acts on: \<open>boxes\<close>, the message
  boxes shown so far, and \<open>files\<close>, the bytes of the files written so far. Two more are
  the locale the application runs in: \<open>fromLocal8Bit\<close> is \<^verbatim>\<open>QString::fromLocal8Bit\<close>,
  from the bytes of one read to text, and \<open>streamEncode\<close> gives the bytes a
  \<^verbatim>\<open>QTextStream\<close> on a file writes for a text when it is flushed.
\<close>

record MainWindow =
  checked :: radio
  cpuWorkers :: int
  cpuDuration :: int
  ramWorkers :: int
  ramDuration :: int
  ramBytes :: string
  diskSize :: string
  diskFilename :: string
  diskRuntime :: int
  netServer :: string
  netExtra :: string
  btnStart :: bool
  btnStop :: bool
  progress :: "progress_call list"
  eta :: string
  outputView :: "output_call list"
  statusBar :: string
  proc :: ProcessState
  procStarted :: "string list list"
  procRequests :: "proc_request list"
  runTimer :: nat
  expectedSeconds :: "int option"
  logFile :: QFile
  boxes :: "message_box list"
  files :: "string \<rightharpoonup> string"
  fromLocal8Bit :: "string \<Rightarrow> string"
  streamEncode :: "string \<Rightarrow> string"

text \<open>
  What the handlers ask of the system: \<open>which\<close> is the function \<^verbatim>\<open>which(exe)\<close> of the
  source (it runs a shell), \<open>logDirPath\<close> and \<open>timestamp\<close> are the results of the
  functions of these names, \<open>isoDate\<close> is
  \<^verbatim>\<open>QDateTime::currentDateTime().toString(Qt::ISODate)\<close>, \<open>currentPath\<close> is
  \<^verbatim>\<open>QDir::currentPath()\<close>, \<open>productType\<close> is \<^verbatim>\<open>QSysInfo::productType()\<close>,
  \<open>splitCommand\<close> is \<^verbatim>\<open>QProcess::splitCommand\<close>, \<open>clock\<close> is the time in
  milliseconds. \<open>logOpens fn\<close> tells whether \<^verbatim>\<open>logFile.open\<close> succeeds on that name,
  \<open>procStarts cmd\<close> whether \<^verbatim>\<open>proc.start\<close> gets a child process running.
  (\<^verbatim>\<open>logDirPath()\<close> also creates the directory when it is missing; directories are
  not part of the model.)
\<close>

record sys_env =
  which :: "string \<Rightarrow> bool"
  logDirPath :: string
  timestamp :: string
  isoDate :: string
  currentPath :: string
  productType :: string
  splitCommand :: "string \<Rightarrow> string list"
  clock :: nat
  logOpens :: "string \<Rightarrow> bool"
  procStarts :: "string list \<Rightarrow> bool"

definition showBox :: "message_box \<Rightarrow> MainWindow \<Rightarrow> MainWindow" where
  "showBox b w = w\<lparr>boxes := boxes w @ [b]\<rparr>"

subsection \<open>\<^verbatim>\<open>testName\<close> and \<^verbatim>\<open>buildCommand\<close>\<close>

definition testName :: "MainWindow \<Rightarrow> string" where
  "testName w =
     (if checked w = rbCpu then ''cpu''
      else if checked w = rbRam then ''ram''
      else if checked w = rbGpu then ''gpu''
      else if checked w = rbDisk then ''disk''
      else ''net'')"

text \<open>The lambda \<^verbatim>\<open>need\<close>: the answer, and the window after the message box if any.\<close>

definition need :: "sys_env \<Rightarrow> string \<Rightarrow> MainWindow \<Rightarrow> bool \<times> MainWindow" where
  "need env exe w =
     (if \<not> which env exe
      then (False, showBox (critical ''Missing Dependency''
              ([CHR 0x27] @ exe @ [CHR 0x27] @ '' not found.'' @ nl @ ''Install with:'' @ nl
               @ ''  sudo apt install '' @ exe)) w)
      else (True, w))"

type_synonym command = "string list \<times> int option"

definition noCommand :: command where
  "noCommand = ([], None)"

definition buildCommand :: "sys_env \<Rightarrow> MainWindow \<Rightarrow> command \<times> MainWindow" where
  "buildCommand env w =
     (if checked w = rbCpu then
        (case need env ''stress-ng'' w of
           (False, w') \<Rightarrow> (noCommand, w')
         | (True, w') \<Rightarrow>
             (let workers = max 1 (cpuWorkers w');
                  dur = max 5 (cpuDuration w')
              in (([''stress-ng'', ''--cpu'', number workers, ''--timeout'', number dur @ ''s''],
                   Some dur), w')))
      else if checked w = rbRam then
        (case need env ''stress-ng'' w of
           (False, w') \<Rightarrow> (noCommand, w')
         | (True, w') \<Rightarrow>
             (let vm = max 1 (ramWorkers w');
                  dur = max 5 (ramDuration w');
                  bytes = (if trimmed (ramBytes w') = [] then ''512M'' else trimmed (ramBytes w'))
              in (([''stress-ng'', ''--vm'', number vm, ''--vm-bytes'', bytes, ''--timeout'',
                    number dur @ ''s''], Some dur), w')))
      else if checked w = rbGpu then
        (case need env ''glmark2'' w of
           (False, w') \<Rightarrow> (noCommand, w')
         | (True, w') \<Rightarrow> (([''glmark2''], None), w'))
      else if checked w = rbDisk then
        (case need env ''fio'' w of
           (False, w') \<Rightarrow> (noCommand, w')
         | (True, w') \<Rightarrow>
             (let size = (if trimmed (diskSize w') = [] then ''1G'' else trimmed (diskSize w'));
                  runtime = max 5 (diskRuntime w');
                  filename = (if trimmed (diskFilename w') = []
                              then currentPath env @ ''/fio_testfile.bin''
                              else trimmed (diskFilename w'));
                  ioengine = (if productType env = ''linux'' then ''libaio'' else ''psync'')
              in (([''fio'', ''--name=randrw'', ''--rw=randrw'', ''--size='' @ size,
                    ''--runtime='' @ number runtime, ''--time_based=1'',
                    ''--filename='' @ filename, ''--ioengine='' @ ioengine, ''--direct=1''],
                   Some runtime), w')))
      else
        (case need env ''iperf3'' w of
           (False, w') \<Rightarrow> (noCommand, w')
         | (True, w') \<Rightarrow>
             (let srv = trimmed (netServer w')
              in if srv = []
                 then (noCommand,
                       showBox (warning ''Input Error'' ''Please enter the iperf3 server IP.'') w')
                 else (([''iperf3'', ''-c'', srv] @ splitCommand env (trimmed (netExtra w')),
                        None), w'))))"

section \<open>Process handling\<close>

subsection \<open>The log file\<close>

text \<open>
  \<^verbatim>\<open>QTextStream(&logFile) << s\<close>, flushed when the stream is flushed or destroyed at the
  end of the statement: the stream holds the text it was given and encodes it when it
  flushes, so the bytes of \<open>s\<close> are added at the end of the file the handle names.
\<close>

definition writeLog :: "string \<Rightarrow> MainWindow \<Rightarrow> MainWindow" where
  "writeLog s w =
     w\<lparr>files := (files w)(fileName (logFile w) \<mapsto>
          (case files w (fileName (logFile w)) of
             None \<Rightarrow> streamEncode w s
           | Some c \<Rightarrow> c @ streamEncode w s))\<rparr>"

definition logHeader :: "sys_env \<Rightarrow> string list \<Rightarrow> string" where
  "logHeader env cmd =
     APP_NAME @ '' Log - '' @ isoDate env @ nl @ ''Command: '' @ join cmd CHR '' '' @ nl @ nl"

definition logFooter :: "int \<Rightarrow> string" where
  "logFooter rc = nl @ ''[exit] '' @ number rc @ nl"

definition logName :: "sys_env \<Rightarrow> MainWindow \<Rightarrow> string" where
  "logName env w = logDirPath env @ ''/'' @ testName w @ ''_'' @ timestamp env @ ''.log''"

subsection \<open>\<^verbatim>\<open>startClicked\<close>\<close>

text \<open>
  \<^verbatim>\<open>logFile.setFileName\<close> closes a handle that is still open before it takes the new
  name; \<^verbatim>\<open>open(WriteOnly|Text)\<close> creates the file or empties it. \<^verbatim>\<open>proc.start\<close>
  leaves the process \<open>Running\<close> when the child could be started; when it could not
  (\<^verbatim>\<open>QProcess::FailedToStart\<close>) the process is \<open>NotRunning\<close> again and \<^verbatim>\<open>QProcess\<close>
  emits \<^verbatim>\<open>errorOccurred\<close>, which the window connects to nothing, and never
  \<^verbatim>\<open>finished\<close>. The single-shot timers that call \<^verbatim>\<open>tickProgress\<close> belong to the
  event loop: the model takes the calls as events.
\<close>

definition startClicked :: "sys_env \<Rightarrow> MainWindow \<Rightarrow> MainWindow" where
  "startClicked env w =
     (if proc w \<noteq> NotRunning
      then showBox (warning ''Busy'' ''A test is already running.'') w
      else
        (case buildCommand env w of
           ((cmd, expected), w1) \<Rightarrow>
             if cmd = [] then w1
             else
               (let fn = logName env w1;
                    w2 = w1\<lparr>logFile := \<lparr>fileName = fn, isOpen = False\<rparr>\<rparr>
                in if \<not> logOpens env fn
                   then showBox (critical ''Logging Error'' (''Cannot write log file: '' @ fn)) w2
                   else
                     (let w3 = w2\<lparr>logFile := \<lparr>fileName = fn, isOpen = True\<rparr>,
                                  files := (files w2)(fn \<mapsto> [])\<rparr>;
                          w4 = writeLog (logHeader env cmd) w3
                      in w4\<lparr>expectedSeconds := expected,
                            runTimer := clock env,
                            btnStart := False,
                            btnStop := True,
                            progress := progress w4 @
                              (case expected of Some e \<Rightarrow> [setMaximum e, setValue 0]
                                         | None \<Rightarrow> [setMaximum 0, setRange 0 0]),
                            eta := (case expected of Some e \<Rightarrow> ''ETA: calculating'' @ ellipsis
                                              | None \<Rightarrow> ''ETA: --:--''),
                            outputView := outputView w4 @
                              [append (''Starting: '' @ join cmd CHR '' '')],
                            statusBar := ''Running'' @ ellipsis,
                            procStarted := procStarted w4 @ [cmd],
                            proc := (if procStarts env cmd then Running else NotRunning)\<rparr>))))"

subsection \<open>\<^verbatim>\<open>readStdout\<close>, \<^verbatim>\<open>readStderr\<close>, \<^verbatim>\<open>procFinished\<close>\<close>

text \<open>
  \<open>readStdout bytes w\<close>: \<open>bytes\<close> is what \<^verbatim>\<open>proc.readAllStandardOutput()\<close>
  returns, the bytes of the child process that are there at this read. The handler decodes
  them, each read on its own, shows the text and writes the text to the log through a
  \<^verbatim>\<open>QTextStream\<close>, which encodes it again. \<open>readStderr\<close> does the same with
  \<^verbatim>\<open>proc.readAllStandardError()\<close>.
\<close>

definition readStdout :: "string \<Rightarrow> MainWindow \<Rightarrow> MainWindow" where
  "readStdout bytes w =
     (let s = fromLocal8Bit w bytes;
          w1 = w\<lparr>outputView := outputView w @ [insertPlainText s]\<rparr>
      in if isOpen (logFile w1) then writeLog s w1 else w1)"

definition readStderr :: "string \<Rightarrow> MainWindow \<Rightarrow> MainWindow" where
  "readStderr bytes w =
     (let s = fromLocal8Bit w bytes;
          w1 = w\<lparr>outputView := outputView w @ [insertPlainText s]\<rparr>
      in if isOpen (logFile w1) then writeLog s w1 else w1)"

definition procFinished :: "int \<Rightarrow> MainWindow \<Rightarrow> MainWindow" where
  "procFinished rc w =
     (let w1 = w\<lparr>outputView := outputView w @
                  [append (nl @ ''Process finished with return code: '' @ number rc)]\<rparr>;
          w2 = (if isOpen (logFile w1)
                then (writeLog (logFooter rc) w1)\<lparr>logFile := (logFile w1)\<lparr>isOpen := False\<rparr>\<rparr>
                else w1)
      in w2\<lparr>btnStart := True,
            btnStop := False,
            statusBar := ''Ready.'',
            progress := progress w2 @ [setRange 0 100, setValue 0],
            eta := ''ETA: --:--''\<rparr>)"

text \<open>
  The signals of \<^verbatim>\<open>QProcess\<close> as \<^verbatim>\<open>connectSignals\<close> wires them: data that is ready
  on one of the two channels, and \<^verbatim>\<open>finished\<close>, before which \<^verbatim>\<open>QProcess\<close> is
  \<open>NotRunning\<close> again.
\<close>

datatype proc_output = stdoutData string | stderrData string

fun dataOf :: "proc_output \<Rightarrow> string" where
  "dataOf (stdoutData s) = s"
| "dataOf (stderrData s) = s"

fun readyRead :: "proc_output \<Rightarrow> MainWindow \<Rightarrow> MainWindow" where
  "readyRead (stdoutData s) w = readStdout s w"
| "readyRead (stderrData s) w = readStderr s w"

definition finished :: "int \<Rightarrow> MainWindow \<Rightarrow> MainWindow" where
  "finished rc w = procFinished rc (w\<lparr>proc := NotRunning\<rparr>)"

subsection \<open>\<^verbatim>\<open>stopClicked\<close>\<close>

text \<open>
  \<^verbatim>\<open>proc.waitForFinished(msecs)\<close> blocks the handler and emits the signals of the
  process while it waits. What it does is the system's: \<open>delivered\<close> is the data that
  became ready during the wait, \<open>exitCode\<close> is \<open>Some rc\<close> when the process finished
  within \<open>msecs\<close> milliseconds (the call has emitted \<^verbatim>\<open>finished\<close> and returns true) and
  \<open>None\<close> when the time ran out (it returns false).
\<close>

record wait_outcome =
  delivered :: "proc_output list"
  exitCode :: "int option"

definition stopClicked :: "(nat \<Rightarrow> wait_outcome) \<Rightarrow> MainWindow \<Rightarrow> MainWindow" where
  "stopClicked waitForFinished w =
     (if proc w \<noteq> NotRunning
      then
        (let w1 = w\<lparr>outputView := outputView w @
                     [append (nl @ ''Stopping'' @ ellipsis @ '' attempting graceful termination.'')],
                    procRequests := procRequests w @ [terminate]\<rparr>;
             r = waitForFinished 3000;
             w2 = fold readyRead (delivered r) w1;
             w3 = (case exitCode r of
                     Some rc \<Rightarrow> finished rc w2
                   | None \<Rightarrow> w2\<lparr>procRequests := procRequests w2 @ [kill]\<rparr>)
         in w3\<lparr>statusBar := ''Stopping'' @ ellipsis\<rparr>)
      else w)"

subsection \<open>\<^verbatim>\<open>closeEvent\<close>\<close>

text \<open>
  \<open>closeEvent yes waitForFinished w\<close>: \<open>yes\<close> tells whether the user answers the
  question with Yes. The result says whether the window closes (the event is passed to
  \<^verbatim>\<open>QMainWindow::closeEvent\<close>, which accepts it) or stays open (\<^verbatim>\<open>e->ignore()\<close>).
  When the window, the only one of the application, has closed, the event loop of
  \<^verbatim>\<open>main\<close> ends.
\<close>

definition closeEvent :: "bool \<Rightarrow> (nat \<Rightarrow> wait_outcome) \<Rightarrow> MainWindow \<Rightarrow> bool \<times> MainWindow" where
  "closeEvent yes waitForFinished w =
     (if proc w \<noteq> NotRunning
      then
        (let w0 = showBox (question ''Exit'' ''A test is running. Stop it and exit?'') w
         in if \<not> yes then (False, w0)
            else
              (let w1 = w0\<lparr>procRequests := procRequests w0 @ [terminate]\<rparr>;
                   r = waitForFinished 1500;
                   w2 = fold readyRead (delivered r) w1
               in (True,
                   (case exitCode r of
                      Some rc \<Rightarrow> finished rc w2
                    | None \<Rightarrow> w2\<lparr>procRequests := procRequests w2 @ [kill]\<rparr>))))
      else (True, w))"

subsection \<open>\<^verbatim>\<open>tickProgress\<close>\<close>

text \<open>\<^verbatim>\<open>arg(n, 2, 10, QChar('0'))\<close>: the number, padded with zeros to two characters.\<close>

definition pad2 :: "int \<Rightarrow> string" where
  "pad2 n = replicate (2 - length (number n)) CHR ''0'' @ number n"

definition tickProgress :: "nat \<Rightarrow> MainWindow \<Rightarrow> MainWindow" where
  "tickProgress now w =
     (if proc w \<noteq> NotRunning
      then
        (case expectedSeconds w of
           Some e \<Rightarrow>
             (let elapsed = int ((now - runTimer w) div 1000);
                  remain = max 0 (e - elapsed);
                  mm = remain div 60;
                  ss = remain mod 60
              in w\<lparr>progress := progress w @ [setMaximum e, setValue (min e (max 0 elapsed))],
                   eta := ''ETA: '' @ pad2 mm @ '':'' @ pad2 ss\<rparr>)
         | None \<Rightarrow> w)
      else w)"

subsection \<open>Events\<close>

text \<open>
  What the event loop hands to the window: a click on Start or Stop, data of the process,
  a tick of the progress timer at a time, the end of the process with its code, a request
  to close the window with the answer the user gives to the question. \<open>reads e\<close> lists
  the reads of the output of the process that \<open>e\<close> brings about during a run, each with
  the bytes it returns, in the order they are made; \<open>exitOf e\<close> is the exit code \<open>e\<close>
  brings during a run, if it brings one. \<open>closes e w\<close>: handling \<open>e\<close> in \<open>w\<close>
  closes the window, after which no event reaches it; \<open>open_through es w\<close>: none of
  the events \<open>es\<close>, handled one after the other from \<open>w\<close> on, closes the window.
\<close>

datatype event =
    StartClicked sys_env
  | StopClicked "nat \<Rightarrow> wait_outcome"
  | ReadyRead proc_output
  | TickProgress nat
  | Finished int
  | CloseEvent bool "nat \<Rightarrow> wait_outcome"

fun deliver :: "event \<Rightarrow> MainWindow \<Rightarrow> MainWindow" where
  "deliver (StartClicked env) w = startClicked env w"
| "deliver (StopClicked waitForFinished) w = stopClicked waitForFinished w"
| "deliver (ReadyRead d) w = readyRead d w"
| "deliver (TickProgress now) w = tickProgress now w"
| "deliver (Finished rc) w = finished rc w"
| "deliver (CloseEvent yes waitForFinished) w = snd (closeEvent yes waitForFinished w)"

fun reads :: "event \<Rightarrow> string list" where
  "reads (StopClicked waitForFinished) = map dataOf (delivered (waitForFinished 3000))"
| "reads (ReadyRead d) = [dataOf d]"
| "reads (CloseEvent yes waitForFinished) =
     (if yes then map dataOf (delivered (waitForFinished 1500)) else [])"
| "reads _ = []"

fun exitOf :: "event \<Rightarrow> int option" where
  "exitOf (StopClicked waitForFinished) = exitCode (waitForFinished 3000)"
| "exitOf (Finished rc) = Some rc"
| "exitOf (CloseEvent yes waitForFinished) =
     (if yes then exitCode (waitForFinished 1500) else None)"
| "exitOf _ = None"

fun closes :: "event \<Rightarrow> MainWindow \<Rightarrow> bool" where
  "closes (CloseEvent yes waitForFinished) w = fst (closeEvent yes waitForFinished w)"
| "closes _ w = False"

fun open_through :: "event list \<Rightarrow> MainWindow \<Rightarrow> bool" where
  "open_through [] w = True"
| "open_through (ev # evs) w = (\<not> closes ev w \<and> open_through evs (deliver ev w))"

text \<open>
  The supervisor is idle: no child process, no open log, Start enabled and Stop disabled.
\<close>

definition idle_state :: "MainWindow \<Rightarrow> bool" where
  "idle_state w = (proc w = NotRunning \<and> \<not> isOpen (logFile w) \<and> btnStart w \<and> \<not> btnStop w)"

subsection \<open>The window at start, and a system to run it in\<close>

text \<open>
  The window as the constructor and \<^verbatim>\<open>buildUi\<close> leave it, given
  \<^verbatim>\<open>QThread::idealThreadCount()\<close> and \<^verbatim>\<open>QDir::currentPath()\<close>; no message box has
  been shown and no file written. Its locale is one in which decoding a read and encoding
  a text change nothing, as with the codec ISO-8859-1 under Qt5, where each byte is the
  character of the same number.
\<close>

definition initialWindow :: "int \<Rightarrow> string \<Rightarrow> MainWindow" where
  "initialWindow idealThreadCount cwd =
     \<lparr>checked = rbCpu,
      cpuWorkers = min 512 (max 1 (max 1 idealThreadCount)),
      cpuDuration = 300,
      ramWorkers = 2,
      ramDuration = 300,
      ramBytes = ''1G'',
      diskSize = ''1G'',
      diskFilename = cwd @ ''/fio_testfile.bin'',
      diskRuntime = 60,
      netServer = [],
      netExtra = [],
      btnStart = True,
      btnStop = False,
      progress = [setMinimum 0, setMaximum 100, setValue 0],
      eta = ''ETA: --:--'',
      outputView = [],
      statusBar = ''Ready.'',
      proc = NotRunning,
      procStarted = [],
      procRequests = [],
      runTimer = 0,
      expectedSeconds = None,
      logFile = \<lparr>fileName = [], isOpen = False\<rparr>,
      boxes = [],
      files = Map.empty,
      fromLocal8Bit = (\<lambda>bytes. bytes),
      streamEncode = (\<lambda>s. s)\<rparr>"

text \<open>
  The same window in a UTF-8 locale, for reads in which no byte above 0x7F belongs to a
  complete multi-byte sequence (a byte that is never valid, or a two-byte character cut
  in two by the boundary between two reads). Decoding such a read, on its own, turns each
  of these bytes into U+FFFD. That character lies outside the model's characters, as
  U+2026 does, and stands as its three UTF-8 bytes, which are also what the stream writes
  for it.
\<close>

definition replacementChar :: string where
  "replacementChar = [CHR 0xEF, CHR 0xBF, CHR 0xBD]"

definition utf8Broken :: "string \<Rightarrow> string" where
  "utf8Broken bytes =
     concat (map (\<lambda>b. if (of_char b :: nat) < 128 then [b] else replacementChar) bytes)"

definition utf8Window :: MainWindow where
  "utf8Window = (initialWindow 4 ''/home/u'')\<lparr>fromLocal8Bit := utf8Broken\<rparr>"

text \<open>
  A system for concrete inputs: every tool is installed, the log file can be written and
  every process starts. Extra arguments are split at white space, which is what
  \<^verbatim>\<open>QProcess::splitCommand\<close> does to a string without quotes.
\<close>

definition sampleEnv :: sys_env where
  "sampleEnv =
     \<lparr>which = (\<lambda>exe. True),
      logDirPath = ''/home/u/HardwareStressTest/logs'',
      timestamp = ''2025-09-06_12-00-00'',
      isoDate = ''2025-09-06T12:00:00'',
      currentPath = ''/home/u'',
      productType = ''ubuntu'',
      splitCommand = (\<lambda>s. splitSkipEmpty s []),
      clock = 0,
      logOpens = (\<lambda>fn. True),
      procStarts = (\<lambda>cmd. True)\<rparr>"

subsection \<open>A run in progress\<close>

text \<open>
  The state between the start of a process and its end, used in the proofs: a process is
  there, the log file \<open>fn\<close> is open and holds \<open>c\<close>, and the locale decodes with
  \<open>dec\<close> and encodes with \<open>enc\<close>.
\<close>

definition run_inv ::
  "(string \<Rightarrow> string) \<Rightarrow> (string \<Rightarrow> string) \<Rightarrow> string \<Rightarrow> string \<Rightarrow> MainWindow \<Rightarrow> bool" where
  "run_inv dec enc fn c w =
     (proc w \<noteq> NotRunning \<and> isOpen (logFile w) \<and> fileName (logFile w) = fn
      \<and> files w fn = Some c \<and> fromLocal8Bit w = dec \<and> streamEncode w = enc)"

section \<open>Properties of the system monitor\<close>


lemma pct_range:
  assumes "a \<le> b"
  shows "0 \<le> real a / real b * 100 \<and> real a / real b * 100 \<le> 100"
proof (cases "b = 0")
  case True
  then show ?thesis by simp
next
  case False
  then have "0 < real b" by simp
  with assms show ?thesis by (simp add: field_simps)
qed

lemma word_pct_range:
  fixes x y :: quint64
  assumes "x \<le> y"
  shows "0 \<le> real (unat x) / real (unat y) * 100 \<and> real (unat x) / real (unat y) * 100 \<le> 100"
  using assms by (intro pct_range) (simp add: word_le_nat_alt)

lemma unat_plus:
  fixes x y :: quint64
  assumes "unat x + unat y < 2 ^ 64"
  shows "unat (x + y) = unat x + unat y"
  using assms by (simp add: unat_add_lem [THEN iffD1])

lemma sum2_fit:
  fixes a b c d :: quint64
  assumes "a \<le> b" "c \<le> d" "unat b + unat d < 2 ^ 64"
  shows "d - c \<le> (b - a) + (d - c)"
proof -
  have ba: "unat (b - a) = unat b - unat a" using assms(1) by (rule unat_sub)
  have dc: "unat (d - c) = unat d - unat c" using assms(2) by (rule unat_sub)
  have "unat (b - a) + unat (d - c) < 2 ^ 64" using assms(3) ba dc by linarith
  then have "unat ((b - a) + (d - c)) = unat (b - a) + unat (d - c)" by (rule unat_plus)
  then show ?thesis by (simp add: word_le_nat_alt)
qed

lemma nonIdle_unat:
  assumes "counters_fit n"
  shows "unat (nonIdle n) = unat (user n) + unat (nice n) + unat (sys n) + unat (irq n)
           + unat (softirq n) + unat (steal n)"
proof -
  have fit: "unat (user n) + unat (nice n) + unat (sys n) + unat (idle n) + unat (iowait n)
        + unat (irq n) + unat (softirq n) + unat (steal n) < 2 ^ 64"
    using assms by (simp add: counters_fit_def)
  have 1: "unat (user n + nice n) = unat (user n) + unat (nice n)"
    using fit by (intro unat_plus) linarith
  have 2: "unat (user n + nice n + sys n) = unat (user n + nice n) + unat (sys n)"
    using fit 1 by (intro unat_plus) linarith
  have 3: "unat (user n + nice n + sys n + irq n) = unat (user n + nice n + sys n) + unat (irq n)"
    using fit 1 2 by (intro unat_plus) linarith
  have 4: "unat (user n + nice n + sys n + irq n + softirq n)
             = unat (user n + nice n + sys n + irq n) + unat (softirq n)"
    using fit 1 2 3 by (intro unat_plus) linarith
  have 5: "unat (user n + nice n + sys n + irq n + softirq n + steal n)
             = unat (user n + nice n + sys n + irq n + softirq n) + unat (steal n)"
    using fit 1 2 3 4 by (intro unat_plus) linarith
  show ?thesis unfolding nonIdle_def using 1 2 3 4 5 by linarith
qed

lemma idle_unat:
  assumes "counters_fit n"
  shows "unat (idle n + iowait n) = unat (idle n) + unat (iowait n)"
  using assms unfolding counters_fit_def by (intro unat_plus) linarith

lemma advance_fit:
  assumes "counters_advance p n" "counters_fit n"
  shows "counters_fit p"
  using assms unfolding counters_fit_def counters_advance_def word_le_nat_alt by linarith

lemma deltaNon_le_total:
  assumes adv: "counters_advance p n" and fit: "counters_fit n"
  shows "deltaNon p n \<le> deltaIdle p n + deltaNon p n"
proof -
  have fp: "counters_fit p" using adv fit by (rule advance_fit)
  have a: "idle p + iowait p \<le> idle n + iowait n"
    using adv unfolding word_le_nat_alt idle_unat [OF fit] idle_unat [OF fp] counters_advance_def
    by simp
  have b: "nonIdle p \<le> nonIdle n"
    using adv unfolding word_le_nat_alt nonIdle_unat [OF fit] nonIdle_unat [OF fp] counters_advance_def
    by simp
  have c: "unat (idle n + iowait n) + unat (nonIdle n) < 2 ^ 64"
    using fit unfolding idle_unat [OF fit] nonIdle_unat [OF fit] counters_fit_def by simp
  show ?thesis unfolding deltaNon_def deltaIdle_def
    by (rule sum2_fit [OF a b c])
qed

lemma cpuPercent_Some:
  assumes "staticPrev st f0 = Some p" "readCpu f = Some n"
  shows "cpuPercent st f0 f =
           (if deltaIdle p n + deltaNon p n = 0 then 0
            else real (unat (deltaNon p n)) / real (unat (deltaIdle p n + deltaNon p n)) * 100,
            Some (Some n))"
  using assms by (simp add: cpuPercent_def Let_def)

lemma cpuPercent_None:
  assumes "staticPrev st f0 = None \<or> readCpu f = None"
  shows "cpuPercent st f0 f = (0, Some (staticPrev st f0))"
  using assms by (auto simp: cpuPercent_def Let_def split: option.splits)

lemma delta_same: "deltaIdle n n + deltaNon n n = 0"
  by (simp add: deltaIdle_def deltaNon_def)

lemma cpuPercent_range:
  assumes "staticPrev st f0 = Some p" "readCpu f = Some n" "counters_advance p n" "counters_fit n"
  shows "0 \<le> fst (cpuPercent st f0 f) \<and> fst (cpuPercent st f0 f) \<le> 100"
  using word_pct_range [OF deltaNon_le_total [OF assms(3,4)]]
  by (simp add: cpuPercent_Some [OF assms(1,2)])

lemma cpuPercent_first_same: "cpuPercent None f f = (0, Some (readCpu f))"
proof (cases "readCpu f")
  case None
  then show ?thesis by (simp add: cpuPercent_None staticPrev_def)
next
  case (Some n)
  then show ?thesis by (simp add: cpuPercent_Some [of None f n f n] staticPrev_def delta_same)
qed

lemma disk_used_le:
  fixes blocks frsize bavail :: quint64
  assumes "bavail \<le> blocks" "unat blocks * unat frsize < 2 ^ 64"
  shows "blocks * frsize - bavail * frsize \<le> blocks * frsize"
proof -
  have le: "unat bavail * unat frsize \<le> unat blocks * unat frsize"
    using assms(1) by (simp add: word_le_nat_alt mult_right_mono)
  have b: "unat (blocks * frsize) = unat blocks * unat frsize"
    using assms(2) by (simp add: unat_mult_lem [THEN iffD1])
  have lt: "unat bavail * unat frsize < 2 ^ 64"
    using le assms(2) by linarith
  have a: "unat (bavail * frsize) = unat bavail * unat frsize"
    using lt by (simp add: unat_mult_lem [THEN iffD1])
  have "bavail * frsize \<le> blocks * frsize"
    using le by (simp add: word_le_nat_alt a b)
  then show ?thesis by (rule word_sub_le)
qed

lemma rootDiskPercent_range:
  assumes "f_bavail s \<le> f_blocks s" "unat (f_blocks s) * unat (f_frsize s) < 2 ^ 64"
  shows "0 \<le> pct (rootDiskPercent (Some s)) \<and> pct (rootDiskPercent (Some s)) \<le> 100"
  using word_pct_range [OF disk_used_le [OF assms]]
  by (simp add: rootDiskPercent_def Let_def)

lemma memPercent_range:
  assumes "mapValue (meminfoMap tou ls Map.empty) ''MemAvailable'' 0
             \<le> mapValue (meminfoMap tou ls Map.empty) ''MemTotal'' 0"
  shows "0 \<le> pct (memPercent tou (Some ls)) \<and> pct (memPercent tou (Some ls)) \<le> 100"
  using word_pct_range [OF word_sub_le [OF assms]]
  by (simp add: memPercent_def Let_def)

lemma meminfoMap_absent:
  assumes "\<forall>l \<in> set ls. \<forall>v. meminfoLine tou l \<noteq> Some (k, v)"
  shows "meminfoMap tou ls m k = m k"
  using assms
proof (induction ls arbitrary: m)
  case Nil
  then show ?case by simp
next
  case (Cons l ls)
  then show ?case by (auto split: option.splits)
qed

lemma memPercent_zero_total:
  assumes "mapValue (meminfoMap tou ls Map.empty) ''MemTotal'' 0 = 0"
  shows "pct (memPercent tou (Some ls)) = 0"
  using assms by (simp add: memPercent_def Let_def)

text \<open>
  Claim C4, as amended. \<^verbatim>\<open>cpuPercent\<close> returns 0 whenever the total of the two deltas
  is \<open>\<le> 0\<close>, which for the unsigned 64-bit total means that it is 0, and whenever the
  stored or the current snapshot is missing. So a call whose current counters equal the
  stored ones reports 0, and the first call after startup reports 0 when the two reads of
  \<^verbatim>\<open>/proc/stat\<close> it makes find the same thing. Nothing is said of a call after the
  counters went down.
\<close>

theorem cpuPercent_zero_total:
  "(staticPrev st f0 = Some p \<and> readCpu f = Some n \<and> deltaIdle p n + deltaNon p n \<le> 0
      \<longrightarrow> cpuPercent st f0 f = (0, Some (Some n)))
   \<and> ((deltaIdle p n + deltaNon p n \<le> 0) = (deltaIdle p n + deltaNon p n = 0))
   \<and> (staticPrev st f0 = None \<or> readCpu f = None
      \<longrightarrow> cpuPercent st f0 f = (0, Some (staticPrev st f0)))
   \<and> (readCpu f = Some n \<longrightarrow> cpuPercent (Some (Some n)) f0 f = (0, Some (Some n)))
   \<and> cpuPercent None f f = (0, Some (readCpu f))"
proof (intro conjI impI)
  assume "staticPrev st f0 = Some p \<and> readCpu f = Some n \<and> deltaIdle p n + deltaNon p n \<le> 0"
  then show "cpuPercent st f0 f = (0, Some (Some n))"
    by (simp add: cpuPercent_Some)
next
  show "(deltaIdle p n + deltaNon p n \<le> 0) = (deltaIdle p n + deltaNon p n = 0)"
    by simp
next
  assume "staticPrev st f0 = None \<or> readCpu f = None"
  then show "cpuPercent st f0 f = (0, Some (staticPrev st f0))"
    by (rule cpuPercent_None)
next
  assume "readCpu f = Some n"
  then show "cpuPercent (Some (Some n)) f0 f = (0, Some (Some n))"
    by (simp add: cpuPercent_Some [of _ _ n] staticPrev_def delta_same)
next
  show "cpuPercent None f f = (0, Some (readCpu f))"
    by (rule cpuPercent_first_same)
qed

theorem cpuPercent_zero_total_witness:
  "staticPrev (Some (Some (snapshot 7 9))) StatUnreadable = Some (snapshot 7 9)
   \<and> readCpu (StatLine ''cpu'' (snapshot 7 9)) = Some (snapshot 7 9)
   \<and> deltaIdle (snapshot 7 9) (snapshot 7 9) + deltaNon (snapshot 7 9) (snapshot 7 9) \<le> 0
   \<and> cpuPercent (Some (Some (snapshot 7 9))) StatUnreadable (StatLine ''cpu'' (snapshot 7 9))
       = (0, Some (Some (snapshot 7 9)))
   \<and> readCpu (StatLine ''intr'' (snapshot 7 9)) = None
   \<and> cpuPercent (Some (Some (snapshot 7 9))) StatUnreadable (StatLine ''intr'' (snapshot 7 9))
       = (0, Some (Some (snapshot 7 9)))
   \<and> cpuPercent None (StatLine ''cpu'' (snapshot 7 9)) (StatLine ''cpu'' (snapshot 7 9))
       = (0, Some (Some (snapshot 7 9)))"
proof -
  have h1: "staticPrev (Some (Some (snapshot 7 9))) StatUnreadable = Some (snapshot 7 9)"
    by (simp add: staticPrev_def)
  have h2: "readCpu (StatLine ''cpu'' (snapshot 7 9)) = Some (snapshot 7 9)"
    by simp
  have h3: "deltaIdle (snapshot 7 9) (snapshot 7 9) + deltaNon (snapshot 7 9) (snapshot 7 9) \<le> 0"
    by (simp add: deltaIdle_def deltaNon_def)
  have h4: "readCpu (StatLine ''intr'' (snapshot 7 9)) = None"
    by simp
  note t1 = cpuPercent_zero_total [of "Some (Some (snapshot 7 9))" StatUnreadable "snapshot 7 9"
      "StatLine ''cpu'' (snapshot 7 9)" "snapshot 7 9"]
  note t2 = cpuPercent_zero_total [of "Some (Some (snapshot 7 9))" StatUnreadable "snapshot 7 9"
      "StatLine ''intr'' (snapshot 7 9)" "snapshot 7 9"]
  from t1 h1 h2 h3 have c1: "cpuPercent (Some (Some (snapshot 7 9))) StatUnreadable
      (StatLine ''cpu'' (snapshot 7 9)) = (0, Some (Some (snapshot 7 9)))"
    by blast
  from t2 h1 h4 have c2: "cpuPercent (Some (Some (snapshot 7 9))) StatUnreadable
      (StatLine ''intr'' (snapshot 7 9)) = (0, Some (Some (snapshot 7 9)))"
    by simp
  from t1 h2 have c3: "cpuPercent None (StatLine ''cpu'' (snapshot 7 9))
      (StatLine ''cpu'' (snapshot 7 9)) = (0, Some (Some (snapshot 7 9)))"
    by simp
  from h1 h2 h3 h4 c1 c2 c3 show ?thesis by blast
qed

text \<open>
  The first call with counters that moved between its two reads reports 50 percent, and a
  call after the counters fell below the stored ones reports at least 100 percent: the
  differences wrap around, and the total is not 0.
\<close>

theorem cpuPercent_first_call_counterexample:
  "fst (cpuPercent None (StatLine ''cpu'' (snapshot 5 5)) (StatLine ''cpu'' (snapshot 6 6))) = 50
   \<and> 100 \<le> fst (cpuPercent (Some (Some (snapshot 1000 100))) StatUnreadable
                   (StatLine ''cpu'' (snapshot 10 50)))"
proof
  show "fst (cpuPercent None (StatLine ''cpu'' (snapshot 5 5)) (StatLine ''cpu'' (snapshot 6 6))) = 50"
    by (simp add: cpuPercent_def staticPrev_def snapshot_def deltaIdle_def deltaNon_def nonIdle_def)
next
  show "100 \<le> fst (cpuPercent (Some (Some (snapshot 1000 100))) StatUnreadable
                   (StatLine ''cpu'' (snapshot 10 50)))"
    by (simp add: cpuPercent_def staticPrev_def snapshot_def deltaIdle_def deltaNon_def nonIdle_def)
qed

lemma rootDiskPercent_zero_blocks:
  assumes "f_blocks s = 0"
  shows "pct (rootDiskPercent (Some s)) = 0"
  using assms by (simp add: rootDiskPercent_def)

lemma memPercent_no_total:
  assumes "\<forall>l \<in> set ls. \<forall>v. meminfoLine tou l \<noteq> Some (''MemTotal'', v)"
  shows "pct (memPercent tou (Some ls)) = 0"
  by (rule memPercent_zero_total) (simp add: meminfoMap_absent [OF assms] mapValue_def)

text \<open>
  Claim C5, as amended. Each percent function returns a value in \<open>[0, 100]\<close> on
  well-formed input: for \<^verbatim>\<open>cpuPercent\<close> counters that advance and whose sum fits 64
  bits, for \<^verbatim>\<open>memPercent\<close> a \<^verbatim>\<open>MemAvailable\<close> not above \<^verbatim>\<open>MemTotal\<close>, for
  \<^verbatim>\<open>rootDiskPercent\<close> available blocks not above the blocks and a size that fits 64
  bits. Each returns exactly 0 on a zero total (\<^verbatim>\<open>MemTotal\<close> 0, no blocks, a delta total
  of 0), on a source that cannot be read (or, for the CPU, a first line whose tag is not
  \<^verbatim>\<open>cpu\<close>), and \<^verbatim>\<open>memPercent\<close> when no line gives a value for \<^verbatim>\<open>MemTotal\<close>. The
  first CPU sample is 0 when the two reads the first call makes find the same thing.
\<close>

theorem percent_range_and_zero:
  "(staticPrev st fi = Some p \<and> readCpu f = Some n \<and> counters_advance p n \<and> counters_fit n
      \<longrightarrow> 0 \<le> fst (cpuPercent st fi f) \<and> fst (cpuPercent st fi f) \<le> 100)
   \<and> (mapValue (meminfoMap tou ls Map.empty) ''MemAvailable'' 0
        \<le> mapValue (meminfoMap tou ls Map.empty) ''MemTotal'' 0
      \<longrightarrow> 0 \<le> pct (memPercent tou (Some ls)) \<and> pct (memPercent tou (Some ls)) \<le> 100)
   \<and> (f_bavail s \<le> f_blocks s \<and> unat (f_blocks s) * unat (f_frsize s) < 2 ^ 64
      \<longrightarrow> 0 \<le> pct (rootDiskPercent (Some s)) \<and> pct (rootDiskPercent (Some s)) \<le> 100)
   \<and> (mapValue (meminfoMap tou lz Map.empty) ''MemTotal'' 0 = 0
      \<longrightarrow> pct (memPercent tou (Some lz)) = 0)
   \<and> (f_blocks sz = 0 \<longrightarrow> pct (rootDiskPercent (Some sz)) = 0)
   \<and> (staticPrev sa fa = Some pa \<and> readCpu fb = Some na \<and> deltaIdle pa na + deltaNon pa na = 0
      \<longrightarrow> fst (cpuPercent sa fa fb) = 0)
   \<and> pct (memPercent tou None) = 0
   \<and> pct (rootDiskPercent None) = 0
   \<and> (staticPrev sb fc = None \<or> readCpu fd = None \<longrightarrow> fst (cpuPercent sb fc fd) = 0)
   \<and> readCpu StatUnreadable = None
   \<and> (tag \<noteq> ''cpu'' \<longrightarrow> readCpu (StatLine tag x) = None)
   \<and> ((\<forall>l \<in> set lm. \<forall>v. meminfoLine tou l \<noteq> Some (''MemTotal'', v))
      \<longrightarrow> pct (memPercent tou (Some lm)) = 0)
   \<and> fst (cpuPercent None fe fe) = 0"
proof (intro conjI impI)
  assume h: "staticPrev st fi = Some p \<and> readCpu f = Some n \<and> counters_advance p n \<and> counters_fit n"
  from h have a: "staticPrev st fi = Some p" and b: "readCpu f = Some n"
    and c: "counters_advance p n" and d: "counters_fit n"
    by simp_all
  have "0 \<le> fst (cpuPercent st fi f) \<and> fst (cpuPercent st fi f) \<le> 100"
    by (rule cpuPercent_range [OF a b c d])
  then show "0 \<le> fst (cpuPercent st fi f)" and "fst (cpuPercent st fi f) \<le> 100"
    by simp_all
next
  assume "mapValue (meminfoMap tou ls Map.empty) ''MemAvailable'' 0
            \<le> mapValue (meminfoMap tou ls Map.empty) ''MemTotal'' 0"
  then have "0 \<le> pct (memPercent tou (Some ls)) \<and> pct (memPercent tou (Some ls)) \<le> 100"
    by (rule memPercent_range)
  then show "0 \<le> pct (memPercent tou (Some ls))" and "pct (memPercent tou (Some ls)) \<le> 100"
    by simp_all
next
  assume h: "f_bavail s \<le> f_blocks s \<and> unat (f_blocks s) * unat (f_frsize s) < 2 ^ 64"
  from h have a: "f_bavail s \<le> f_blocks s" and b: "unat (f_blocks s) * unat (f_frsize s) < 2 ^ 64"
    by simp_all
  have "0 \<le> pct (rootDiskPercent (Some s)) \<and> pct (rootDiskPercent (Some s)) \<le> 100"
    by (rule rootDiskPercent_range [OF a b])
  then show "0 \<le> pct (rootDiskPercent (Some s))" and "pct (rootDiskPercent (Some s)) \<le> 100"
    by simp_all
next
  assume "mapValue (meminfoMap tou lz Map.empty) ''MemTotal'' 0 = 0"
  then show "pct (memPercent tou (Some lz)) = 0" by (rule memPercent_zero_total)
next
  assume "f_blocks sz = 0"
  then show "pct (rootDiskPercent (Some sz)) = 0" by (rule rootDiskPercent_zero_blocks)
next
  assume "staticPrev sa fa = Some pa \<and> readCpu fb = Some na \<and> deltaIdle pa na + deltaNon pa na = 0"
  then show "fst (cpuPercent sa fa fb) = 0" by (simp add: cpuPercent_Some)
next
  show "pct (memPercent tou None) = 0" by (simp add: memPercent_def)
next
  show "pct (rootDiskPercent None) = 0" by (simp add: rootDiskPercent_def)
next
  assume "staticPrev sb fc = None \<or> readCpu fd = None"
  then show "fst (cpuPercent sb fc fd) = 0" by (simp add: cpuPercent_None)
next
  show "readCpu StatUnreadable = None" by simp
next
  assume "tag \<noteq> ''cpu''"
  then show "readCpu (StatLine tag x) = None" by simp
next
  assume "\<forall>l \<in> set lm. \<forall>v. meminfoLine tou l \<noteq> Some (''MemTotal'', v)"
  then show "pct (memPercent tou (Some lm)) = 0" by (rule memPercent_no_total)
next
  show "fst (cpuPercent None fe fe) = 0" by (simp add: cpuPercent_first_same)
qed

text \<open>
  Claim C9. When no line of \<^verbatim>\<open>/proc/meminfo\<close> gives a value for \<^verbatim>\<open>MemAvailable\<close>, the
  available value is the default 0, the used value is \<^verbatim>\<open>MemTotal\<close>, and for a
  \<^verbatim>\<open>MemTotal\<close> above 0 \<^verbatim>\<open>memPercent\<close> returns exactly 100, with used and total both
  \<^verbatim>\<open>MemTotal\<close> in GiB. The function has no way to report a failure: this is its result.
\<close>

theorem memPercent_without_MemAvailable:
  assumes "\<forall>l \<in> set ls. \<forall>v. meminfoLine tou l \<noteq> Some (''MemAvailable'', v)"
    and "mapValue (meminfoMap tou ls Map.empty) ''MemTotal'' 0 = t"
    and "t \<noteq> 0"
  shows "memPercent tou (Some ls)
           = \<lparr>pct = 100, gib = Some (real (unat t) / 1024 / 1024, real (unat t) / 1024 / 1024)\<rparr>"
proof -
  have "mapValue (meminfoMap tou ls Map.empty) ''MemAvailable'' 0 = 0"
    by (simp add: meminfoMap_absent [OF assms(1)] mapValue_def)
  moreover have "real (unat t) \<noteq> 0" using assms(3) by (simp add: unsigned_eq_0_iff)
  ultimately show ?thesis using assms(2,3) by (simp add: memPercent_def Let_def)
qed

lemmas evalLine = meminfoLine_def isRegexSpace_def decULongLong_def isDigit_def nl_def


theorem memPercent_without_MemAvailable_witness:
  "meminfoLine decULongLong (''MemTotal:       1000 kB'' @ nl) = Some (''MemTotal'', 1000)
   \<and> meminfoLine decULongLong (''MemFree:       200 kB'' @ nl) = Some (''MemFree'', 200)
   \<and> mapValue (meminfoMap decULongLong [''MemTotal:       1000 kB'' @ nl, ''MemFree:       200 kB'' @ nl] Map.empty) ''MemTotal'' 0 = 1000
   \<and> memPercent decULongLong (Some [''MemTotal:       1000 kB'' @ nl, ''MemFree:       200 kB'' @ nl])
       = \<lparr>pct = 100, gib = Some (1000 / 1024 / 1024, 1000 / 1024 / 1024)\<rparr>"
proof -
  have h1: "\<forall>l \<in> set [''MemTotal:       1000 kB'' @ nl, ''MemFree:       200 kB'' @ nl]. \<forall>v. meminfoLine decULongLong l \<noteq> Some (''MemAvailable'', v)"
    by (simp add: evalLine)
  have h2: "mapValue (meminfoMap decULongLong [''MemTotal:       1000 kB'' @ nl, ''MemFree:       200 kB'' @ nl] Map.empty) ''MemTotal'' 0 = 1000"
    by (simp add: evalLine mapValue_def)
  have h3: "(1000 :: quint64) \<noteq> 0" by simp
  have l1: "meminfoLine decULongLong (''MemTotal:       1000 kB'' @ nl) = Some (''MemTotal'', 1000)"
    by (simp add: evalLine)
  have l2: "meminfoLine decULongLong (''MemFree:       200 kB'' @ nl) = Some (''MemFree'', 200)"
    by (simp add: evalLine)
  from memPercent_without_MemAvailable [OF h1 h2 h3] h2 l1 l2 show ?thesis by simp
qed


theorem percent_range_and_zero_witness:
  "(staticPrev (Some (Some (snapshot 100 100))) StatUnreadable = Some (snapshot 100 100)
    \<and> readCpu (StatLine ''cpu'' (snapshot 130 170)) = Some (snapshot 130 170)
    \<and> counters_advance (snapshot 100 100) (snapshot 130 170) \<and> counters_fit (snapshot 130 170)
    \<and> 0 \<le> fst (cpuPercent (Some (Some (snapshot 100 100))) StatUnreadable
                 (StatLine ''cpu'' (snapshot 130 170)))
    \<and> fst (cpuPercent (Some (Some (snapshot 100 100))) StatUnreadable
                 (StatLine ''cpu'' (snapshot 130 170))) \<le> 100)
   \<and> (mapValue (meminfoMap decULongLong [''MemTotal: 1000 kB'', ''MemAvailable: 250 kB'']
          Map.empty) ''MemAvailable'' 0
        \<le> mapValue (meminfoMap decULongLong [''MemTotal: 1000 kB'', ''MemAvailable: 250 kB'']
          Map.empty) ''MemTotal'' 0
    \<and> 0 \<le> pct (memPercent decULongLong (Some [''MemTotal: 1000 kB'', ''MemAvailable: 250 kB'']))
    \<and> pct (memPercent decULongLong (Some [''MemTotal: 1000 kB'', ''MemAvailable: 250 kB''])) \<le> 100)
   \<and> (f_bavail \<lparr>f_blocks = 1000, f_frsize = 4096, f_bavail = 400\<rparr>
        \<le> f_blocks \<lparr>f_blocks = 1000, f_frsize = 4096, f_bavail = 400\<rparr>
    \<and> unat (f_blocks \<lparr>f_blocks = 1000, f_frsize = 4096, f_bavail = 400\<rparr>)
        * unat (f_frsize \<lparr>f_blocks = 1000, f_frsize = 4096, f_bavail = 400\<rparr>) < 2 ^ 64
    \<and> 0 \<le> pct (rootDiskPercent (Some \<lparr>f_blocks = 1000, f_frsize = 4096, f_bavail = 400\<rparr>))
    \<and> pct (rootDiskPercent (Some \<lparr>f_blocks = 1000, f_frsize = 4096, f_bavail = 400\<rparr>)) \<le> 100)
   \<and> (mapValue (meminfoMap decULongLong [''MemTotal: 0 kB''] Map.empty) ''MemTotal'' 0 = 0
    \<and> pct (memPercent decULongLong (Some [''MemTotal: 0 kB''])) = 0)
   \<and> (f_blocks \<lparr>f_blocks = 0, f_frsize = 4096, f_bavail = 0\<rparr> = 0
    \<and> pct (rootDiskPercent (Some \<lparr>f_blocks = 0, f_frsize = 4096, f_bavail = 0\<rparr>)) = 0)
   \<and> (deltaIdle (snapshot 100 100) (snapshot 100 100)
        + deltaNon (snapshot 100 100) (snapshot 100 100) = 0
    \<and> readCpu (StatLine ''cpu'' (snapshot 100 100)) = Some (snapshot 100 100)
    \<and> fst (cpuPercent (Some (Some (snapshot 100 100))) StatUnreadable
              (StatLine ''cpu'' (snapshot 100 100))) = 0)
   \<and> (staticPrev None StatUnreadable = None
    \<and> fst (cpuPercent None StatUnreadable (StatLine ''cpu'' (snapshot 130 170))) = 0)
   \<and> (''intr'' \<noteq> ''cpu'' \<and> readCpu (StatLine ''intr'' (snapshot 130 170)) = None)
   \<and> (meminfoLine decULongLong ''MemTotal'' = None
    \<and> meminfoLine decULongLong ''MemAvailable: 250 kB'' = Some (''MemAvailable'', 250)
    \<and> pct (memPercent decULongLong (Some [''MemTotal'', ''MemAvailable: 250 kB''])) = 0)"
proof -
  note t = percent_range_and_zero [where st = "Some (Some (snapshot 100 100))"
      and fi = StatUnreadable and p = "snapshot 100 100"
      and f = "StatLine ''cpu'' (snapshot 130 170)" and n = "snapshot 130 170"
      and tou = decULongLong and ls = "[''MemTotal: 1000 kB'', ''MemAvailable: 250 kB'']"
      and s = "\<lparr>f_blocks = 1000, f_frsize = 4096, f_bavail = 400\<rparr>"
      and lz = "[''MemTotal: 0 kB'']"
      and sz = "\<lparr>f_blocks = 0, f_frsize = 4096, f_bavail = 0\<rparr>"
      and sa = "Some (Some (snapshot 100 100))" and fa = StatUnreadable
      and pa = "snapshot 100 100" and fb = "StatLine ''cpu'' (snapshot 100 100)"
      and na = "snapshot 100 100"
      and sb = None and fc = StatUnreadable and fd = "StatLine ''cpu'' (snapshot 130 170)"
      and tag = "''intr''" and x = "snapshot 130 170"
      and lm = "[''MemTotal'', ''MemAvailable: 250 kB'']"]
  have a1: "staticPrev (Some (Some (snapshot 100 100))) StatUnreadable = Some (snapshot 100 100)"
    by (simp add: staticPrev_def)
  have a2: "readCpu (StatLine ''cpu'' (snapshot 130 170)) = Some (snapshot 130 170)"
    by simp
  have a3: "counters_advance (snapshot 100 100) (snapshot 130 170)"
    by (simp add: counters_advance_def snapshot_def)
  have a4: "counters_fit (snapshot 130 170)"
    by (simp add: counters_fit_def snapshot_def)
  have b1: "mapValue (meminfoMap decULongLong [''MemTotal: 1000 kB'', ''MemAvailable: 250 kB'']
          Map.empty) ''MemAvailable'' 0
        \<le> mapValue (meminfoMap decULongLong [''MemTotal: 1000 kB'', ''MemAvailable: 250 kB'']
          Map.empty) ''MemTotal'' 0"
    by (simp add: evalLine mapValue_def)
  have c1: "f_bavail \<lparr>f_blocks = 1000, f_frsize = 4096, f_bavail = 400\<rparr>
        \<le> f_blocks \<lparr>f_blocks = 1000, f_frsize = 4096, f_bavail = 400\<rparr>"
    by simp
  have c2: "unat (f_blocks \<lparr>f_blocks = 1000, f_frsize = 4096, f_bavail = 400\<rparr>)
        * unat (f_frsize \<lparr>f_blocks = 1000, f_frsize = 4096, f_bavail = 400\<rparr>) < 2 ^ 64"
    by simp
  have d1: "mapValue (meminfoMap decULongLong [''MemTotal: 0 kB''] Map.empty) ''MemTotal'' 0 = 0"
    by (simp add: evalLine mapValue_def)
  have e1: "f_blocks \<lparr>f_blocks = 0, f_frsize = 4096, f_bavail = 0\<rparr> = 0"
    by simp
  have f1: "deltaIdle (snapshot 100 100) (snapshot 100 100)
        + deltaNon (snapshot 100 100) (snapshot 100 100) = 0"
    by (simp add: deltaIdle_def deltaNon_def)
  have f2: "readCpu (StatLine ''cpu'' (snapshot 100 100)) = Some (snapshot 100 100)"
    by simp
  have g1: "staticPrev None StatUnreadable = None"
    by (simp add: staticPrev_def)
  have i1: "''intr'' \<noteq> ''cpu''"
    by simp
  have j1: "\<forall>l \<in> set [''MemTotal'', ''MemAvailable: 250 kB'']. \<forall>v.
          meminfoLine decULongLong l \<noteq> Some (''MemTotal'', v)"
    by (simp add: evalLine)
  have j2: "meminfoLine decULongLong ''MemTotal'' = None"
    by (simp add: evalLine)
  have j3: "meminfoLine decULongLong ''MemAvailable: 250 kB'' = Some (''MemAvailable'', 250)"
    by (simp add: evalLine)
  from t a1 a2 a3 a4 b1 c1 c2 d1 e1 f1 f2 g1 i1 j1 j2 j3 show ?thesis
    by blast
qed

text \<open>
  The first CPU sample is 100 percent when one tick of user time falls between the two
  reads of the first call; and a \<^verbatim>\<open>MemAvailable\<close> line whose value is not a number gives
  100 percent, not 0.
\<close>

theorem percent_first_sample_counterexample:
  "fst (cpuPercent None (StatLine ''cpu'' (snapshot 10 90)) (StatLine ''cpu'' (snapshot 11 90))) = 100
   \<and> pct (memPercent decULongLong (Some [''MemTotal: 1000 kB'', ''MemAvailable: n/a''])) = 100"
proof
  show "fst (cpuPercent None (StatLine ''cpu'' (snapshot 10 90)) (StatLine ''cpu'' (snapshot 11 90))) = 100"
    by (simp add: cpuPercent_def staticPrev_def snapshot_def deltaIdle_def deltaNon_def nonIdle_def)
next
  show "pct (memPercent decULongLong (Some [''MemTotal: 1000 kB'', ''MemAvailable: n/a''])) = 100"
    by (simp add: memPercent_def evalLine mapValue_def)
qed

section \<open>Properties of command building\<close>

lemma need_present: "which env exe \<Longrightarrow> need env exe w = (True, w)"
  by (simp add: need_def)

lemma need_missing:
  "\<not> which env exe \<Longrightarrow>
   need env exe w = (False, showBox (critical ''Missing Dependency''
     ([CHR 0x27] @ exe @ [CHR 0x27] @ '' not found.'' @ nl @ ''Install with:'' @ nl
      @ ''  sudo apt install '' @ exe)) w)"
  by (simp add: need_def)

lemma trimmed_blank:
  assumes "\<forall>c \<in> set s. isSpace c"
  shows "trimmed s = []"
proof -
  have "dropWhile isSpace s = []"
    using assms by (simp add: dropWhile_eq_Nil_conv)
  then show ?thesis by (simp add: trimmed_def del: dropWhile_eq_Nil_conv)
qed

text \<open>
  The token \<^verbatim>\<open>QString::number\<close> writes for a number that is not negative is its
  decimal numeral: reading the digits back gives the number.
\<close>

lemma digit_char:
  assumes "d < 10"
  shows "isDigit (''0123456789'' ! d) \<and> (of_char (''0123456789'' ! d) :: nat) - 48 = d"
proof -
  from assms have "d \<in> {0, 1, 2, 3, 4, 5, 6, 7, 8, 9}" by auto
  then show ?thesis by (auto simp: isDigit_def)
qed

lemma decNat_append:
  "decNat (xs @ [c]) acc =
     (case decNat xs acc of
        Some a \<Rightarrow> if isDigit c then Some (10 * a + (of_char c - 48)) else None
      | None \<Rightarrow> None)"
  by (induction xs arbitrary: acc) simp_all

lemma decNat_digits: "decNat (digits n) 0 = Some n"
proof (induction n rule: digits.induct)
  case (1 n)
  show ?case
  proof (cases "n < 10")
    case True
    then show ?thesis using digit_char [of n] by (simp add: digits.simps [of n])
  next
    case False
    have m: "n mod 10 < 10" by simp
    from False 1 have "decNat (digits (n div 10)) 0 = Some (n div 10)" by simp
    then show ?thesis
      using False digit_char [OF m] by (simp add: digits.simps [of n] decNat_append)
  qed
qed

lemma number_decimal:
  assumes "0 \<le> i"
  shows "decNat (number i) 0 = Some (nat i)"
  using assms by (simp add: number_def decNat_digits)

text \<open>
  Claim C1. For each of the five tests, when the tool it needs is found (and, for the
  network test, the trimmed server address is not empty), \<^verbatim>\<open>buildCommand\<close> shows no
  message box and returns the argument vector of the shape the tool expects, the executable
  first: \<^verbatim>\<open>stress-ng --cpu N --timeout Ss\<close>,
  \<^verbatim>\<open>stress-ng --vm N --vm-bytes SIZE --timeout Ss\<close>, \<^verbatim>\<open>glmark2\<close>,
  \<^verbatim>\<open>fio --name=randrw --rw=randrw --size=SIZE --runtime=S --time_based=1 --filename=PATH --ioengine=ENGINE --direct=1\<close>,
  \<^verbatim>\<open>iperf3 -c ADDR\<close> followed by the extra tokens. The expected duration is the
  duration clamped to at least 5 for CPU and RAM, the runtime clamped to at least 5 for
  Disk, and none for GPU and Network.
\<close>

theorem buildCommand_shape:
  "(checked w = rbCpu \<and> which env ''stress-ng'' \<longrightarrow>
      buildCommand env w =
        (([''stress-ng'', ''--cpu'', number (max 1 (cpuWorkers w)),
           ''--timeout'', number (max 5 (cpuDuration w)) @ ''s''],
          Some (max 5 (cpuDuration w))), w))
   \<and> (checked w = rbRam \<and> which env ''stress-ng'' \<longrightarrow>
      buildCommand env w =
        (([''stress-ng'', ''--vm'', number (max 1 (ramWorkers w)),
           ''--vm-bytes'', (if trimmed (ramBytes w) = [] then ''512M'' else trimmed (ramBytes w)),
           ''--timeout'', number (max 5 (ramDuration w)) @ ''s''],
          Some (max 5 (ramDuration w))), w))
   \<and> (checked w = rbGpu \<and> which env ''glmark2'' \<longrightarrow>
      buildCommand env w = (([''glmark2''], None), w))
   \<and> (checked w = rbDisk \<and> which env ''fio'' \<longrightarrow>
      buildCommand env w =
        (([''fio'', ''--name=randrw'', ''--rw=randrw'',
           ''--size='' @ (if trimmed (diskSize w) = [] then ''1G'' else trimmed (diskSize w)),
           ''--runtime='' @ number (max 5 (diskRuntime w)), ''--time_based=1'',
           ''--filename='' @ (if trimmed (diskFilename w) = []
                             then currentPath env @ ''/fio_testfile.bin''
                             else trimmed (diskFilename w)),
           ''--ioengine='' @ (if productType env = ''linux'' then ''libaio'' else ''psync''),
           ''--direct=1''],
          Some (max 5 (diskRuntime w))), w))
   \<and> (checked w = rbNet \<and> which env ''iperf3'' \<and> trimmed (netServer w) \<noteq> [] \<longrightarrow>
      buildCommand env w =
        (([''iperf3'', ''-c'', trimmed (netServer w)] @ splitCommand env (trimmed (netExtra w)),
          None), w))"
  by (simp add: buildCommand_def need_present Let_def)

theorem buildCommand_shape_witness:
  "(checked (initialWindow 4 ''/home/u'') = rbCpu \<and> which sampleEnv ''stress-ng''
    \<and> buildCommand sampleEnv (initialWindow 4 ''/home/u'')
        = (([''stress-ng'', ''--cpu'', ''4'', ''--timeout'', ''300s''], Some 300),
           initialWindow 4 ''/home/u''))
   \<and> (checked ((initialWindow 4 ''/home/u'')\<lparr>checked := rbRam, ramBytes := ''  ''\<rparr>) = rbRam
    \<and> buildCommand sampleEnv ((initialWindow 4 ''/home/u'')\<lparr>checked := rbRam, ramBytes := ''  ''\<rparr>)
        = (([''stress-ng'', ''--vm'', ''2'', ''--vm-bytes'', ''512M'', ''--timeout'', ''300s''],
            Some 300),
           (initialWindow 4 ''/home/u'')\<lparr>checked := rbRam, ramBytes := ''  ''\<rparr>))
   \<and> (checked ((initialWindow 4 ''/home/u'')\<lparr>checked := rbGpu\<rparr>) = rbGpu
    \<and> which sampleEnv ''glmark2''
    \<and> buildCommand sampleEnv ((initialWindow 4 ''/home/u'')\<lparr>checked := rbGpu\<rparr>)
        = (([''glmark2''], None), (initialWindow 4 ''/home/u'')\<lparr>checked := rbGpu\<rparr>))
   \<and> (checked ((initialWindow 4 ''/home/u'')\<lparr>checked := rbDisk, diskRuntime := 10\<rparr>) = rbDisk
    \<and> which sampleEnv ''fio''
    \<and> buildCommand sampleEnv ((initialWindow 4 ''/home/u'')\<lparr>checked := rbDisk, diskRuntime := 10\<rparr>)
        = (([''fio'', ''--name=randrw'', ''--rw=randrw'', ''--size=1G'', ''--runtime=10'',
             ''--time_based=1'', ''--filename=/home/u/fio_testfile.bin'', ''--ioengine=psync'',
             ''--direct=1''], Some 10),
           (initialWindow 4 ''/home/u'')\<lparr>checked := rbDisk, diskRuntime := 10\<rparr>))
   \<and> (checked ((initialWindow 4 ''/home/u'')
          \<lparr>checked := rbNet, netServer := '' 10.0.0.2 '', netExtra := ''-t 5''\<rparr>) = rbNet
    \<and> which sampleEnv ''iperf3''
    \<and> trimmed (netServer ((initialWindow 4 ''/home/u'')
          \<lparr>checked := rbNet, netServer := '' 10.0.0.2 '', netExtra := ''-t 5''\<rparr>)) \<noteq> []
    \<and> buildCommand sampleEnv ((initialWindow 4 ''/home/u'')
          \<lparr>checked := rbNet, netServer := '' 10.0.0.2 '', netExtra := ''-t 5''\<rparr>)
        = (([''iperf3'', ''-c'', ''10.0.0.2'', ''-t'', ''5''], None),
           (initialWindow 4 ''/home/u'')
          \<lparr>checked := rbNet, netServer := '' 10.0.0.2 '', netExtra := ''-t 5''\<rparr>))"
proof -
  have h: "\<And>exe. which sampleEnv exe"
    by (simp add: sampleEnv_def)
  have cpu: "buildCommand sampleEnv (initialWindow 4 ''/home/u'')
        = (([''stress-ng'', ''--cpu'', ''4'', ''--timeout'', ''300s''], Some 300),
           initialWindow 4 ''/home/u'')"
    using buildCommand_shape [of "initialWindow 4 ''/home/u''" sampleEnv] h
    by (simp add: initialWindow_def number_def digits.simps)
  have ram: "buildCommand sampleEnv ((initialWindow 4 ''/home/u'')\<lparr>checked := rbRam, ramBytes := ''  ''\<rparr>)
        = (([''stress-ng'', ''--vm'', ''2'', ''--vm-bytes'', ''512M'', ''--timeout'', ''300s''],
            Some 300),
           (initialWindow 4 ''/home/u'')\<lparr>checked := rbRam, ramBytes := ''  ''\<rparr>)"
    using buildCommand_shape [of "(initialWindow 4 ''/home/u'')\<lparr>checked := rbRam, ramBytes := ''  ''\<rparr>" sampleEnv] h
    by (simp add: initialWindow_def number_def digits.simps trimmed_def isSpace_def)
  have gpu: "buildCommand sampleEnv ((initialWindow 4 ''/home/u'')\<lparr>checked := rbGpu\<rparr>)
        = (([''glmark2''], None), (initialWindow 4 ''/home/u'')\<lparr>checked := rbGpu\<rparr>)"
    using buildCommand_shape [of "(initialWindow 4 ''/home/u'')\<lparr>checked := rbGpu\<rparr>" sampleEnv] h
    by simp
  have disk: "buildCommand sampleEnv ((initialWindow 4 ''/home/u'')\<lparr>checked := rbDisk, diskRuntime := 10\<rparr>)
        = (([''fio'', ''--name=randrw'', ''--rw=randrw'', ''--size=1G'', ''--runtime=10'',
             ''--time_based=1'', ''--filename=/home/u/fio_testfile.bin'', ''--ioengine=psync'',
             ''--direct=1''], Some 10),
           (initialWindow 4 ''/home/u'')\<lparr>checked := rbDisk, diskRuntime := 10\<rparr>)"
    using buildCommand_shape [of "(initialWindow 4 ''/home/u'')\<lparr>checked := rbDisk, diskRuntime := 10\<rparr>" sampleEnv] h
    by (simp add: initialWindow_def sampleEnv_def number_def digits.simps trimmed_def isSpace_def)
  have srv: "trimmed (netServer ((initialWindow 4 ''/home/u'')
          \<lparr>checked := rbNet, netServer := '' 10.0.0.2 '', netExtra := ''-t 5''\<rparr>)) = ''10.0.0.2''"
    by (simp add: trimmed_def isSpace_def)
  have net: "buildCommand sampleEnv ((initialWindow 4 ''/home/u'')
          \<lparr>checked := rbNet, netServer := '' 10.0.0.2 '', netExtra := ''-t 5''\<rparr>)
        = (([''iperf3'', ''-c'', ''10.0.0.2'', ''-t'', ''5''], None),
           (initialWindow 4 ''/home/u'')
          \<lparr>checked := rbNet, netServer := '' 10.0.0.2 '', netExtra := ''-t 5''\<rparr>)"
    using buildCommand_shape [of "(initialWindow 4 ''/home/u'')
          \<lparr>checked := rbNet, netServer := '' 10.0.0.2 '', netExtra := ''-t 5''\<rparr>" sampleEnv] h srv
    by (simp add: sampleEnv_def trimmed_def isSpace_def isRegexSpace_def)
  show ?thesis
    using h cpu ram gpu disk net srv by (simp add: initialWindow_def)
qed

section \<open>Properties of process handling\<close>

lemma buildCommand_window:
  "buildCommand env w = (c, w') \<Longrightarrow> w' = w \<or> (fst c = [] \<and> (\<exists>b. w' = showBox b w))"
  by (auto simp: buildCommand_def need_def noCommand_def Let_def split: if_splits)

lemma buildCommand_same_window:
  assumes "buildCommand env w = ((cmd, e), w')" "cmd \<noteq> []"
  shows "w' = w"
  using buildCommand_window [OF assms(1)] assms(2) by auto

lemma startClicked_busy:
  "proc w \<noteq> NotRunning \<Longrightarrow>
   startClicked env w = showBox (warning ''Busy'' ''A test is already running.'') w"
  by (simp add: startClicked_def)

lemma startClicked_no_command:
  assumes "proc w = NotRunning" "fst (fst (buildCommand env w)) = []"
  shows "startClicked env w = snd (buildCommand env w)"
proof -
  obtain cmd e w1 where b: "buildCommand env w = ((cmd, e), w1)"
    by (metis prod.exhaust)
  with assms(2) have "cmd = []" by simp
  with b assms(1) show ?thesis by (simp add: startClicked_def)
qed

lemma startClicked_log_failure:
  assumes "proc w = NotRunning" "buildCommand env w = ((cmd, e), w)" "cmd \<noteq> []"
    and "\<not> logOpens env (logName env w)"
  shows "startClicked env w =
           showBox (critical ''Logging Error'' (''Cannot write log file: '' @ logName env w))
             (w\<lparr>logFile := \<lparr>fileName = logName env w, isOpen = False\<rparr>\<rparr>)"
  using assms by (simp add: startClicked_def Let_def)

lemma startClicked_started:
  assumes "proc w = NotRunning" "buildCommand env w = ((cmd, e), w)" "cmd \<noteq> []"
    and "logOpens env (logName env w)"
  shows "proc (startClicked env w) = (if procStarts env cmd then Running else NotRunning)"
    and "logFile (startClicked env w) = \<lparr>fileName = logName env w, isOpen = True\<rparr>"
    and "files (startClicked env w)
           = (files w)(logName env w \<mapsto> streamEncode w (logHeader env cmd))"
    and "btnStart (startClicked env w) = False"
    and "btnStop (startClicked env w) = True"
    and "boxes (startClicked env w) = boxes w"
    and "statusBar (startClicked env w) = ''Running'' @ ellipsis"
    and "procStarted (startClicked env w) = procStarted w @ [cmd]"
    and "expectedSeconds (startClicked env w) = e"
    and "fromLocal8Bit (startClicked env w) = fromLocal8Bit w"
    and "streamEncode (startClicked env w) = streamEncode w"
  using assms by (simp_all add: startClicked_def Let_def writeLog_def)

lemma writeLog_fields [simp]:
  "proc (writeLog s w) = proc w"
  "logFile (writeLog s w) = logFile w"
  "btnStart (writeLog s w) = btnStart w"
  "btnStop (writeLog s w) = btnStop w"
  "procRequests (writeLog s w) = procRequests w"
  "boxes (writeLog s w) = boxes w"
  "procStarted (writeLog s w) = procStarted w"
  "fromLocal8Bit (writeLog s w) = fromLocal8Bit w"
  "streamEncode (writeLog s w) = streamEncode w"
  by (simp_all add: writeLog_def)

lemma writeLog_files:
  assumes "fileName (logFile w) = fn" "files w fn = Some c"
  shows "files (writeLog s w) fn = Some (c @ streamEncode w s)"
  using assms by (simp add: writeLog_def)

lemma readyRead_fields [simp]:
  "proc (readyRead d w) = proc w"
  "logFile (readyRead d w) = logFile w"
  "btnStart (readyRead d w) = btnStart w"
  "btnStop (readyRead d w) = btnStop w"
  "procRequests (readyRead d w) = procRequests w"
  "boxes (readyRead d w) = boxes w"
  "procStarted (readyRead d w) = procStarted w"
  "fromLocal8Bit (readyRead d w) = fromLocal8Bit w"
  "streamEncode (readyRead d w) = streamEncode w"
  by (cases d; simp add: readStdout_def readStderr_def Let_def)+

lemma fold_readyRead_fields [simp]:
  "proc (fold readyRead ds w) = proc w"
  "logFile (fold readyRead ds w) = logFile w"
  "btnStart (fold readyRead ds w) = btnStart w"
  "btnStop (fold readyRead ds w) = btnStop w"
  "procRequests (fold readyRead ds w) = procRequests w"
  "boxes (fold readyRead ds w) = boxes w"
  "procStarted (fold readyRead ds w) = procStarted w"
  "fromLocal8Bit (fold readyRead ds w) = fromLocal8Bit w"
  "streamEncode (fold readyRead ds w) = streamEncode w"
  by (induction ds arbitrary: w; simp)+

lemma readyRead_inv:
  assumes "run_inv dec enc fn c w"
  shows "run_inv dec enc fn (c @ enc (dec (dataOf d))) (readyRead d w)"
  using assms
  by (cases d) (auto simp: run_inv_def readStdout_def readStderr_def Let_def writeLog_def)

lemma fold_readyRead_inv:
  assumes "run_inv dec enc fn c w"
  shows "run_inv dec enc fn (c @ concat (map (\<lambda>b. enc (dec b)) (map dataOf ds)))
           (fold readyRead ds w)"
  using assms
proof (induction ds arbitrary: c w)
  case Nil
  then show ?case by simp
next
  case (Cons d ds)
  from Cons.IH [OF readyRead_inv [OF Cons.prems, of d]] show ?case by simp
qed

lemma procFinished_fields:
  "proc (procFinished rc w) = proc w"
  "isOpen (logFile (procFinished rc w)) = False"
  "fileName (logFile (procFinished rc w)) = fileName (logFile w)"
  "btnStart (procFinished rc w) = True"
  "btnStop (procFinished rc w) = False"
  "procRequests (procFinished rc w) = procRequests w"
  "statusBar (procFinished rc w) = ''Ready.''"
  by (simp_all add: procFinished_def Let_def)

lemma finished_idle: "idle_state (finished rc w)"
  by (simp add: idle_state_def finished_def procFinished_fields)

lemma finished_requests: "procRequests (finished rc w) = procRequests w"
  by (simp add: finished_def procFinished_fields)

lemma finished_log:
  assumes "run_inv dec enc fn c w"
  shows "files (finished rc w) fn = Some (c @ enc (logFooter rc))"
  using assms by (auto simp: run_inv_def finished_def procFinished_def Let_def writeLog_def)

lemma tickProgress_inv:
  assumes "run_inv dec enc fn c w"
  shows "run_inv dec enc fn c (tickProgress now w)"
  using assms by (simp add: run_inv_def tickProgress_def Let_def split: option.splits)

lemma startClicked_inv:
  assumes "run_inv dec enc fn c w"
  shows "run_inv dec enc fn c (startClicked env w)"
  using assms by (simp add: run_inv_def startClicked_busy showBox_def)

lemma stopClicked_running:
  assumes "proc w \<noteq> NotRunning"
  shows "stopClicked wait w =
           (let w2 = fold readyRead (delivered (wait 3000))
                       (w\<lparr>outputView := outputView w @
                            [append (nl @ ''Stopping'' @ ellipsis @ '' attempting graceful termination.'')],
                          procRequests := procRequests w @ [terminate]\<rparr>)
            in (case exitCode (wait 3000) of
                  Some rc \<Rightarrow> finished rc w2
                | None \<Rightarrow> w2\<lparr>procRequests := procRequests w2 @ [kill]\<rparr>)
               \<lparr>statusBar := ''Stopping'' @ ellipsis\<rparr>)"
  using assms by (simp add: stopClicked_def Let_def)

lemma stopClicked_inv:
  assumes "run_inv dec enc fn c w" "exitCode (wait 3000) = None"
  shows "run_inv dec enc fn
           (c @ concat (map (\<lambda>b. enc (dec b)) (map dataOf (delivered (wait 3000)))))
           (stopClicked wait w)"
proof -
  let ?w1 = "w\<lparr>outputView := outputView w @
                 [append (nl @ ''Stopping'' @ ellipsis @ '' attempting graceful termination.'')],
               procRequests := procRequests w @ [terminate]\<rparr>"
  have r: "proc w \<noteq> NotRunning" using assms(1) by (simp add: run_inv_def)
  have "run_inv dec enc fn c ?w1" using assms(1) by (simp add: run_inv_def)
  then have "run_inv dec enc fn
               (c @ concat (map (\<lambda>b. enc (dec b)) (map dataOf (delivered (wait 3000)))))
               (fold readyRead (delivered (wait 3000)) ?w1)"
    by (rule fold_readyRead_inv)
  then show ?thesis
    by (simp add: stopClicked_running [OF r] assms(2) Let_def run_inv_def)
qed

lemma stopClicked_exit_log:
  assumes "run_inv dec enc fn c w" "exitCode (wait 3000) = Some rc"
  shows "files (stopClicked wait w) fn
           = Some (c @ concat (map (\<lambda>b. enc (dec b)) (map dataOf (delivered (wait 3000))))
                   @ enc (logFooter rc))"
    and "idle_state (stopClicked wait w)"
proof -
  let ?w1 = "w\<lparr>outputView := outputView w @
                 [append (nl @ ''Stopping'' @ ellipsis @ '' attempting graceful termination.'')],
               procRequests := procRequests w @ [terminate]\<rparr>"
  have r: "proc w \<noteq> NotRunning" using assms(1) by (simp add: run_inv_def)
  have "run_inv dec enc fn c ?w1" using assms(1) by (simp add: run_inv_def)
  then have "run_inv dec enc fn
               (c @ concat (map (\<lambda>b. enc (dec b)) (map dataOf (delivered (wait 3000)))))
               (fold readyRead (delivered (wait 3000)) ?w1)"
    by (rule fold_readyRead_inv)
  from finished_log [OF this, of rc]
  show "files (stopClicked wait w) fn
           = Some (c @ concat (map (\<lambda>b. enc (dec b)) (map dataOf (delivered (wait 3000))))
                   @ enc (logFooter rc))"
    by (simp add: stopClicked_running [OF r] assms(2) Let_def)
  have "idle_state (finished rc (fold readyRead (delivered (wait 3000)) ?w1))"
    by (rule finished_idle)
  then show "idle_state (stopClicked wait w)"
    by (simp add: stopClicked_running [OF r] assms(2) Let_def idle_state_def)
qed

lemma closeEvent_running:
  assumes "proc w \<noteq> NotRunning"
  shows "fst (closeEvent yes wait w) = yes"
    and "\<not> yes \<Longrightarrow> snd (closeEvent yes wait w)
           = showBox (question ''Exit'' ''A test is running. Stop it and exit?'') w"
    and "yes \<Longrightarrow> snd (closeEvent yes wait w)
           = (let w2 = fold readyRead (delivered (wait 1500))
                         (w\<lparr>boxes := boxes w
                               @ [question ''Exit'' ''A test is running. Stop it and exit?''],
                            procRequests := procRequests w @ [terminate]\<rparr>)
              in case exitCode (wait 1500) of
                   Some rc \<Rightarrow> finished rc w2
                 | None \<Rightarrow> w2\<lparr>procRequests := procRequests w2 @ [kill]\<rparr>)"
  using assms by (simp_all add: closeEvent_def showBox_def Let_def split: option.splits)

lemma closeEvent_inv:
  assumes "run_inv dec enc fn c w"
  shows "run_inv dec enc fn c (snd (closeEvent False wait w))"
proof -
  have r: "proc w \<noteq> NotRunning" using assms by (simp add: run_inv_def)
  show ?thesis using assms by (simp add: closeEvent_running(2) [OF r] showBox_def run_inv_def)
qed

lemma closeEvent_exit_log:
  assumes "run_inv dec enc fn c w" "exitCode (wait 1500) = Some rc"
  shows "files (snd (closeEvent True wait w)) fn
           = Some (c @ concat (map (\<lambda>b. enc (dec b)) (map dataOf (delivered (wait 1500))))
                   @ enc (logFooter rc))"
    and "idle_state (snd (closeEvent True wait w))"
proof -
  let ?w1 = "w\<lparr>boxes := boxes w @ [question ''Exit'' ''A test is running. Stop it and exit?''],
               procRequests := procRequests w @ [terminate]\<rparr>"
  have r: "proc w \<noteq> NotRunning" using assms(1) by (simp add: run_inv_def)
  have "run_inv dec enc fn c ?w1" using assms(1) by (simp add: run_inv_def)
  then have "run_inv dec enc fn
               (c @ concat (map (\<lambda>b. enc (dec b)) (map dataOf (delivered (wait 1500)))))
               (fold readyRead (delivered (wait 1500)) ?w1)"
    by (rule fold_readyRead_inv)
  from finished_log [OF this, of rc]
  show "files (snd (closeEvent True wait w)) fn
           = Some (c @ concat (map (\<lambda>b. enc (dec b)) (map dataOf (delivered (wait 1500))))
                   @ enc (logFooter rc))"
    by (simp add: closeEvent_running(3) [OF r] assms(2) Let_def)
  have "idle_state (finished rc (fold readyRead (delivered (wait 1500)) ?w1))"
    by (rule finished_idle)
  then show "idle_state (snd (closeEvent True wait w))"
    by (simp add: closeEvent_running(3) [OF r] assms(2) Let_def)
qed

lemma deliver_inv:
  assumes "run_inv dec enc fn c w" "exitOf ev = None" "\<not> closes ev w"
  shows "run_inv dec enc fn (c @ concat (map (\<lambda>b. enc (dec b)) (reads ev))) (deliver ev w)"
proof (cases ev)
  case (StartClicked env)
  then show ?thesis using assms(1) by (simp add: startClicked_inv)
next
  case (StopClicked wait)
  then show ?thesis using stopClicked_inv [OF assms(1), of wait] assms(2) by simp
next
  case (ReadyRead d)
  then show ?thesis using readyRead_inv [OF assms(1), of d] by simp
next
  case (TickProgress now)
  then show ?thesis using assms(1) by (simp add: tickProgress_inv)
next
  case (Finished rc)
  then show ?thesis using assms(2) by simp
next
  case (CloseEvent yes wait)
  have "proc w \<noteq> NotRunning" using assms(1) by (simp add: run_inv_def)
  from closeEvent_running(1) [OF this, of yes wait] assms(3) CloseEvent have "\<not> yes"
    by simp
  with CloseEvent show ?thesis using closeEvent_inv [OF assms(1), of wait] by simp
qed

lemma fold_deliver_inv:
  assumes "run_inv dec enc fn c w" "\<forall>ev \<in> set evs. exitOf ev = None"
    and "open_through evs w"
  shows "run_inv dec enc fn (c @ concat (map (\<lambda>b. enc (dec b)) (concat (map reads evs))))
           (fold deliver evs w)"
  using assms
proof (induction evs arbitrary: c w)
  case Nil
  then show ?case by simp
next
  case (Cons ev evs)
  have "run_inv dec enc fn (c @ concat (map (\<lambda>b. enc (dec b)) (reads ev))) (deliver ev w)"
    using Cons.prems by (intro deliver_inv) simp_all
  from Cons.IH [OF this] Cons.prems(2,3) show ?case by simp
qed

lemma deliver_exit:
  assumes "run_inv dec enc fn c w" "exitOf ev = Some rc"
  shows "files (deliver ev w) fn
           = Some (c @ concat (map (\<lambda>b. enc (dec b)) (reads ev)) @ enc (logFooter rc))"
    and "idle_state (deliver ev w)"
proof -
  have "files (deliver ev w) fn
          = Some (c @ concat (map (\<lambda>b. enc (dec b)) (reads ev)) @ enc (logFooter rc))
        \<and> idle_state (deliver ev w)"
  proof (cases ev)
    case (StopClicked wait)
    then show ?thesis using assms stopClicked_exit_log [of dec enc fn c w wait rc] by simp
  next
    case (Finished r)
    then show ?thesis
      using assms finished_log [of dec enc fn c w rc] finished_idle [of rc w] by simp
  next
    case (CloseEvent yes wait)
    with assms(2) have "yes" "exitCode (wait 1500) = Some rc"
      by (simp_all split: if_splits)
    with CloseEvent show ?thesis
      using closeEvent_exit_log [OF assms(1), of wait rc] by simp
  qed (use assms(2) in simp_all)
  then show "files (deliver ev w) fn
           = Some (c @ concat (map (\<lambda>b. enc (dec b)) (reads ev)) @ enc (logFooter rc))"
    and "idle_state (deliver ev w)" by simp_all
qed

lemma startClicked_run_inv:
  assumes "proc w = NotRunning" "buildCommand env w = ((cmd, e), w)" "cmd \<noteq> []"
    and "logOpens env (logName env w)" "procStarts env cmd"
  shows "run_inv (fromLocal8Bit w) (streamEncode w) (logName env w)
           (streamEncode w (logHeader env cmd)) (startClicked env w)"
  using startClicked_started [OF assms(1-4)] assms(5) by (simp add: run_inv_def)

lemma startClicked_requests:
  assumes "proc w = NotRunning" "buildCommand env w = ((cmd, e), w)"
  shows "procRequests (startClicked env w) = procRequests w"
  using assms by (simp add: startClicked_def Let_def writeLog_def showBox_def)

lemma run_log:
  assumes "proc w = NotRunning"
    and "fst (buildCommand env w) = (cmd, e)"
    and "cmd \<noteq> []"
    and "logOpens env (logName env w)"
    and "procStarts env cmd"
    and "\<forall>ev \<in> set evs. exitOf ev = None"
    and "open_through evs (startClicked env w)"
    and "exitOf final = Some rc"
  shows "files (deliver final (fold deliver evs (startClicked env w))) (logName env w)
           = Some (streamEncode w (logHeader env cmd)
                   @ concat (map (\<lambda>bytes. streamEncode w (fromLocal8Bit w bytes))
                               (concat (map reads (evs @ [final]))))
                   @ streamEncode w (logFooter rc))"
    and "idle_state (deliver final (fold deliver evs (startClicked env w)))"
proof -
  let ?fn = "logName env w"
  obtain w1 where "buildCommand env w = ((cmd, e), w1)"
    using assms(2) by (cases "buildCommand env w") simp
  moreover from this assms(3) have "w1 = w"
    by (rule buildCommand_same_window)
  ultimately have b: "buildCommand env w = ((cmd, e), w)"
    by simp
  have "run_inv (fromLocal8Bit w) (streamEncode w) ?fn (streamEncode w (logHeader env cmd))
          (startClicked env w)"
    using assms(1) b assms(3-5) by (rule startClicked_run_inv)
  then have inv: "run_inv (fromLocal8Bit w) (streamEncode w) ?fn
      (streamEncode w (logHeader env cmd)
       @ concat (map (\<lambda>bytes. streamEncode w (fromLocal8Bit w bytes)) (concat (map reads evs))))
      (fold deliver evs (startClicked env w))"
    using assms(6,7) by (rule fold_deliver_inv)
  note ex = deliver_exit [OF inv assms(8)]
  from ex(1) show "files (deliver final (fold deliver evs (startClicked env w))) ?fn
           = Some (streamEncode w (logHeader env cmd)
                   @ concat (map (\<lambda>bytes. streamEncode w (fromLocal8Bit w bytes))
                               (concat (map reads (evs @ [final]))))
                   @ streamEncode w (logFooter rc))"
    by simp
  from ex(2) show "idle_state (deliver final (fold deliver evs (startClicked env w)))" .
qed

text \<open>
  Claim C3, as amended. Take a run that ends with the exit of the process being handled:
  Start is clicked while no process runs, a command is built, the log file opens and the
  process starts; then events reach the window, none of which brings the end of the process
  or closes the window (reads of its output on either channel, ticks, clicks on Start,
  clicks on Stop whose wait times out, requests to close the window that the user
  declines); then the end of the process arrives, from the event loop or inside the wait of
  a click on Stop or of a request to close the window that the user accepts. At the end
  the log file holds the header (the application's name, the ISO date and the command
  line), then for every read of the output of the process, once and in the order of the
  reads, the bytes that read becomes when it is decoded on its own and encoded again by
  the stream, then the line with the exit code; and the file is closed and the supervisor
  idle. When decoding and encoding give every read back as it was, as they do for ASCII,
  what lies between header and footer is every byte the process wrote, as read. Nothing is
  said of a run in which the window closes before the exit of the process is handled.
\<close>

theorem log_of_a_run:
  assumes "proc w = NotRunning"
    and "fst (buildCommand env w) = (cmd, e)"
    and "cmd \<noteq> []"
    and "logOpens env (logName env w)"
    and "procStarts env cmd"
    and "\<forall>ev \<in> set evs. exitOf ev = None"
    and "open_through evs (startClicked env w)"
    and "exitOf final = Some rc"
  shows "files (deliver final (fold deliver evs (startClicked env w))) (logName env w)
           = Some (streamEncode w (APP_NAME @ '' Log - '' @ isoDate env @ nl
                                   @ ''Command: '' @ join cmd CHR '' '' @ nl @ nl)
                   @ concat (map (\<lambda>bytes. streamEncode w (fromLocal8Bit w bytes))
                               (concat (map reads (evs @ [final]))))
                   @ streamEncode w (nl @ ''[exit] '' @ number rc @ nl))
         \<and> \<not> isOpen (logFile (deliver final (fold deliver evs (startClicked env w))))
         \<and> idle_state (deliver final (fold deliver evs (startClicked env w)))
         \<and> ((\<forall>bytes \<in> set (concat (map reads (evs @ [final]))).
               streamEncode w (fromLocal8Bit w bytes) = bytes) \<longrightarrow>
            files (deliver final (fold deliver evs (startClicked env w))) (logName env w)
              = Some (streamEncode w (APP_NAME @ '' Log - '' @ isoDate env @ nl
                                      @ ''Command: '' @ join cmd CHR '' '' @ nl @ nl)
                      @ concat (concat (map reads (evs @ [final])))
                      @ streamEncode w (nl @ ''[exit] '' @ number rc @ nl)))"
proof -
  let ?end = "deliver final (fold deliver evs (startClicked env w))"
  let ?rs = "concat (map reads (evs @ [final]))"
  note r = run_log [OF assms]
  have f: "files ?end (logName env w)
      = Some (streamEncode w (APP_NAME @ '' Log - '' @ isoDate env @ nl
                              @ ''Command: '' @ join cmd CHR '' '' @ nl @ nl)
              @ concat (map (\<lambda>bytes. streamEncode w (fromLocal8Bit w bytes)) ?rs)
              @ streamEncode w (nl @ ''[exit] '' @ number rc @ nl))"
    using r(1) by (simp only: logHeader_def logFooter_def)
  have c: "\<not> isOpen (logFile ?end)"
    using r(2) by (simp add: idle_state_def)
  have same: "concat (map (\<lambda>bytes. streamEncode w (fromLocal8Bit w bytes)) ?rs) = concat ?rs"
    if "\<forall>bytes \<in> set ?rs. streamEncode w (fromLocal8Bit w bytes) = bytes"
  proof -
    from that have "map (\<lambda>bytes. streamEncode w (fromLocal8Bit w bytes)) ?rs = map (\<lambda>bytes. bytes) ?rs"
      by (intro map_cong) simp_all
    then show ?thesis by simp
  qed
  show ?thesis
  proof (intro conjI impI)
    show "files ?end (logName env w)
      = Some (streamEncode w (APP_NAME @ '' Log - '' @ isoDate env @ nl
                              @ ''Command: '' @ join cmd CHR '' '' @ nl @ nl)
              @ concat (map (\<lambda>bytes. streamEncode w (fromLocal8Bit w bytes)) ?rs)
              @ streamEncode w (nl @ ''[exit] '' @ number rc @ nl))"
      by (rule f)
    show "\<not> isOpen (logFile ?end)" by (rule c)
    show "idle_state ?end" by (rule r(2))
  next
    assume "\<forall>bytes \<in> set ?rs. streamEncode w (fromLocal8Bit w bytes) = bytes"
    then have "concat (map (\<lambda>bytes. streamEncode w (fromLocal8Bit w bytes)) ?rs) = concat ?rs"
      by (rule same)
    with f show "files ?end (logName env w)
      = Some (streamEncode w (APP_NAME @ '' Log - '' @ isoDate env @ nl
                              @ ''Command: '' @ join cmd CHR '' '' @ nl @ nl)
              @ concat ?rs
              @ streamEncode w (nl @ ''[exit] '' @ number rc @ nl))"
      by simp
  qed
qed

lemma sample_command:
  "buildCommand sampleEnv (initialWindow 4 ''/home/u'')
     = (([''stress-ng'', ''--cpu'', ''4'', ''--timeout'', ''300s''], Some 300),
        initialWindow 4 ''/home/u'')"
  by (simp add: buildCommand_def need_def sampleEnv_def initialWindow_def Let_def
      number_def digits.simps)

lemma sample_logName:
  "logName env' (initialWindow 4 ''/home/u'')
     = logDirPath env' @ ''/cpu_'' @ timestamp env' @ ''.log''"
  by (simp add: logName_def testName_def initialWindow_def)

lemma sample_running:
  "proc (startClicked sampleEnv (initialWindow 4 ''/home/u'')) = Running"
proof -
  have "proc (initialWindow 4 ''/home/u'') = NotRunning"
    by (simp add: initialWindow_def)
  from startClicked_started(1) [OF this sample_command] show ?thesis
    by (simp add: sampleEnv_def)
qed

theorem log_of_a_run_witness:
  "proc (initialWindow 4 ''/home/u'') = NotRunning
   \<and> fst (buildCommand sampleEnv (initialWindow 4 ''/home/u''))
       = ([''stress-ng'', ''--cpu'', ''4'', ''--timeout'', ''300s''], Some 300)
   \<and> logOpens sampleEnv (logName sampleEnv (initialWindow 4 ''/home/u''))
   \<and> procStarts sampleEnv [''stress-ng'', ''--cpu'', ''4'', ''--timeout'', ''300s'']
   \<and> exitOf (ReadyRead (stdoutData ''a'')) = None
   \<and> exitOf (CloseEvent False (\<lambda>ms. \<lparr>delivered = [], exitCode = None\<rparr>)) = None
   \<and> exitOf (TickProgress 1000) = None
   \<and> exitOf (ReadyRead (stderrData ''b'')) = None
   \<and> exitOf (StopClicked (\<lambda>ms. \<lparr>delivered = [stdoutData ''c''], exitCode = None\<rparr>)) = None
   \<and> open_through
        [CloseEvent False (\<lambda>ms. \<lparr>delivered = [], exitCode = None\<rparr>),
         ReadyRead (stdoutData ''a''), TickProgress 1000, ReadyRead (stderrData ''b''),
         StopClicked (\<lambda>ms. \<lparr>delivered = [stdoutData ''c''], exitCode = None\<rparr>)]
        (startClicked sampleEnv (initialWindow 4 ''/home/u''))
   \<and> exitOf (Finished 0) = Some 0
   \<and> streamEncode (initialWindow 4 ''/home/u'')
        (fromLocal8Bit (initialWindow 4 ''/home/u'') ''a'') = ''a''
   \<and> streamEncode (initialWindow 4 ''/home/u'')
        (fromLocal8Bit (initialWindow 4 ''/home/u'') ''b'') = ''b''
   \<and> streamEncode (initialWindow 4 ''/home/u'')
        (fromLocal8Bit (initialWindow 4 ''/home/u'') ''c'') = ''c''
   \<and> files (deliver (Finished 0)
        (fold deliver
           [CloseEvent False (\<lambda>ms. \<lparr>delivered = [], exitCode = None\<rparr>),
            ReadyRead (stdoutData ''a''), TickProgress 1000, ReadyRead (stderrData ''b''),
            StopClicked (\<lambda>ms. \<lparr>delivered = [stdoutData ''c''], exitCode = None\<rparr>)]
           (startClicked sampleEnv (initialWindow 4 ''/home/u''))))
        ''/home/u/HardwareStressTest/logs/cpu_2025-09-06_12-00-00.log''
       = Some (''Hardware Stress Testing Tool Log - 2025-09-06T12:00:00'' @ nl
               @ ''Command: stress-ng --cpu 4 --timeout 300s'' @ nl @ nl
               @ ''abc'' @ nl @ ''[exit] 0'' @ nl)
   \<and> \<not> isOpen (logFile (deliver (Finished 0)
        (fold deliver
           [CloseEvent False (\<lambda>ms. \<lparr>delivered = [], exitCode = None\<rparr>),
            ReadyRead (stdoutData ''a''), TickProgress 1000, ReadyRead (stderrData ''b''),
            StopClicked (\<lambda>ms. \<lparr>delivered = [stdoutData ''c''], exitCode = None\<rparr>)]
           (startClicked sampleEnv (initialWindow 4 ''/home/u'')))))"
proof -
  let ?w = "initialWindow 4 ''/home/u''"
  let ?cmd = "[''stress-ng'', ''--cpu'', ''4'', ''--timeout'', ''300s'']"
  let ?evs = "[CloseEvent False (\<lambda>ms. \<lparr>delivered = [], exitCode = None\<rparr>),
               ReadyRead (stdoutData ''a''), TickProgress 1000, ReadyRead (stderrData ''b''),
               StopClicked (\<lambda>ms. \<lparr>delivered = [stdoutData ''c''], exitCode = None\<rparr>)]"
  have h1: "proc ?w = NotRunning" by (simp add: initialWindow_def)
  have h2: "fst (buildCommand sampleEnv ?w) = (?cmd, Some 300)"
    by (simp add: sample_command)
  have h3: "?cmd \<noteq> []" by simp
  have h4: "logOpens sampleEnv (logName sampleEnv ?w)" by (simp add: sampleEnv_def)
  have h5: "procStarts sampleEnv ?cmd" by (simp add: sampleEnv_def)
  have h6: "\<forall>ev \<in> set ?evs. exitOf ev = None" by simp
  have h7: "open_through ?evs (startClicked sampleEnv ?w)"
    by (simp add: closeEvent_running(1) sample_running)
  have h8: "exitOf (Finished 0) = Some 0" by simp
  have idn: "\<And>s. streamEncode ?w s = s" "\<And>s. fromLocal8Bit ?w s = s"
    by (simp_all add: initialWindow_def)
  have fn: "logName sampleEnv ?w = ''/home/u/HardwareStressTest/logs/cpu_2025-09-06_12-00-00.log''"
    by (simp add: sample_logName sampleEnv_def)
  have body: "streamEncode ?w (APP_NAME @ '' Log - '' @ isoDate sampleEnv @ nl
               @ ''Command: '' @ join ?cmd CHR '' '' @ nl @ nl)
             @ concat (concat (map reads (?evs @ [Finished 0])))
             @ streamEncode ?w (nl @ ''[exit] '' @ number 0 @ nl)
           = ''Hardware Stress Testing Tool Log - 2025-09-06T12:00:00'' @ nl
               @ ''Command: stress-ng --cpu 4 --timeout 300s'' @ nl @ nl
               @ ''abc'' @ nl @ ''[exit] 0'' @ nl"
    by (simp add: idn APP_NAME_def sampleEnv_def number_def digits.simps)
  have rt: "\<forall>bytes \<in> set (concat (map reads (?evs @ [Finished 0]))).
              streamEncode ?w (fromLocal8Bit ?w bytes) = bytes"
    by (simp add: idn)
  note t = log_of_a_run [OF h1 h2 h3 h4 h5 h6 h7 h8]
  from t rt have "files (deliver (Finished 0) (fold deliver ?evs (startClicked sampleEnv ?w)))
        (logName sampleEnv ?w)
       = Some (streamEncode ?w (APP_NAME @ '' Log - '' @ isoDate sampleEnv @ nl
               @ ''Command: '' @ join ?cmd CHR '' '' @ nl @ nl)
             @ concat (concat (map reads (?evs @ [Finished 0])))
             @ streamEncode ?w (nl @ ''[exit] '' @ number 0 @ nl))"
    by blast
  then have c1: "files (deliver (Finished 0) (fold deliver ?evs (startClicked sampleEnv ?w)))
        ''/home/u/HardwareStressTest/logs/cpu_2025-09-06_12-00-00.log''
       = Some (''Hardware Stress Testing Tool Log - 2025-09-06T12:00:00'' @ nl
               @ ''Command: stress-ng --cpu 4 --timeout 300s'' @ nl @ nl
               @ ''abc'' @ nl @ ''[exit] 0'' @ nl)"
    unfolding fn body .
  from t have c2: "\<not> isOpen (logFile (deliver (Finished 0)
        (fold deliver ?evs (startClicked sampleEnv ?w))))"
    by blast
  have e1: "exitOf (StopClicked (\<lambda>ms. \<lparr>delivered = [stdoutData ''c''], exitCode = None\<rparr>)) = None"
    and e2: "exitOf (CloseEvent False (\<lambda>ms. \<lparr>delivered = [], exitCode = None\<rparr>)) = None"
    by simp_all
  show ?thesis
    using h1 h2 h4 h5 h7 h8 e1 e2 c1 c2 idn by (intro conjI) simp_all
qed

text \<open>
  In a UTF-8 locale the process writes \<^verbatim>\<open>caf\<close>, the two bytes C3 A9 of an accented e, and
  \<^verbatim>\<open>!\<close>, and the bytes are read in two pieces that part between C3 and A9. Each piece is
  decoded on its own, so the log file holds, between header and footer, \<^verbatim>\<open>caf\<close>, twice the
  three bytes of U+FFFD, and \<^verbatim>\<open>!\<close>: not the bytes the process wrote. And when the window
  is asked to close during a run, the answer is Yes and the process does not end within
  \<^verbatim>\<open>waitForFinished(1500)\<close>, the handler calls \<^verbatim>\<open>kill\<close> and lets the window close:
  no exit of the process has been handled, the log file is still open and no line with an
  exit code is in it.
\<close>

theorem log_of_a_run_counterexample:
  "files (deliver (Finished 0)
      (fold deliver
         [ReadyRead (stdoutData (''caf'' @ [CHR 0xC3])), ReadyRead (stdoutData ([CHR 0xA9] @ ''!''))]
         (startClicked sampleEnv utf8Window)))
      ''/home/u/HardwareStressTest/logs/cpu_2025-09-06_12-00-00.log''
     = Some (''Hardware Stress Testing Tool Log - 2025-09-06T12:00:00'' @ nl
             @ ''Command: stress-ng --cpu 4 --timeout 300s'' @ nl @ nl
             @ ''caf'' @ replacementChar @ replacementChar @ ''!''
             @ nl @ ''[exit] 0'' @ nl)
   \<and> ''caf'' @ replacementChar @ replacementChar @ ''!'' \<noteq> ''caf'' @ [CHR 0xC3, CHR 0xA9] @ ''!''
   \<and> closes (CloseEvent True (\<lambda>ms. \<lparr>delivered = [], exitCode = None\<rparr>))
        (deliver (ReadyRead (stdoutData ''a'')) (startClicked sampleEnv (initialWindow 4 ''/home/u'')))
   \<and> exitOf (CloseEvent True (\<lambda>ms. \<lparr>delivered = [], exitCode = None\<rparr>)) = None
   \<and> procRequests (deliver (CloseEvent True (\<lambda>ms. \<lparr>delivered = [], exitCode = None\<rparr>))
        (deliver (ReadyRead (stdoutData ''a'')) (startClicked sampleEnv (initialWindow 4 ''/home/u''))))
       = [terminate, kill]
   \<and> isOpen (logFile (deliver (CloseEvent True (\<lambda>ms. \<lparr>delivered = [], exitCode = None\<rparr>))
        (deliver (ReadyRead (stdoutData ''a'')) (startClicked sampleEnv (initialWindow 4 ''/home/u'')))))
   \<and> files (deliver (CloseEvent True (\<lambda>ms. \<lparr>delivered = [], exitCode = None\<rparr>))
        (deliver (ReadyRead (stdoutData ''a'')) (startClicked sampleEnv (initialWindow 4 ''/home/u''))))
        ''/home/u/HardwareStressTest/logs/cpu_2025-09-06_12-00-00.log''
       = Some (''Hardware Stress Testing Tool Log - 2025-09-06T12:00:00'' @ nl
               @ ''Command: stress-ng --cpu 4 --timeout 300s'' @ nl @ nl @ ''a'')"
proof -
  let ?w = "initialWindow 4 ''/home/u''"
  let ?cmd = "[''stress-ng'', ''--cpu'', ''4'', ''--timeout'', ''300s'']"
  let ?fn = "''/home/u/HardwareStressTest/logs/cpu_2025-09-06_12-00-00.log''"
  let ?head = "''Hardware Stress Testing Tool Log - 2025-09-06T12:00:00'' @ nl
               @ ''Command: stress-ng --cpu 4 --timeout 300s'' @ nl @ nl"
  let ?evs = "[ReadyRead (stdoutData (''caf'' @ [CHR 0xC3])), ReadyRead (stdoutData ([CHR 0xA9] @ ''!''))]"
  let ?never = "\<lambda>ms::nat. \<lparr>delivered = [], exitCode = None\<rparr>"
  have cmd8: "fst (buildCommand sampleEnv utf8Window) = (?cmd, Some 300)"
    by (simp add: buildCommand_def need_def sampleEnv_def utf8Window_def initialWindow_def
        Let_def number_def digits.simps)
  have p8: "proc utf8Window = NotRunning"
    by (simp add: utf8Window_def initialWindow_def)
  have fn8: "logName sampleEnv utf8Window = ?fn"
    by (simp add: logName_def testName_def sampleEnv_def utf8Window_def initialWindow_def)
  have enc8: "\<And>s. streamEncode utf8Window s = s" and dec8: "fromLocal8Bit utf8Window = utf8Broken"
    by (simp_all add: utf8Window_def initialWindow_def)
  have l8: "logOpens sampleEnv (logName sampleEnv utf8Window)" by (simp add: sampleEnv_def)
  have s8: "procStarts sampleEnv ?cmd" by (simp add: sampleEnv_def)
  have n8: "\<forall>ev \<in> set ?evs. exitOf ev = None" by simp
  have o8: "open_through ?evs (startClicked sampleEnv utf8Window)" by simp
  have head: "logHeader sampleEnv ?cmd = ?head"
    by (simp add: logHeader_def APP_NAME_def sampleEnv_def)
  have foot: "logFooter 0 = nl @ ''[exit] 0'' @ nl"
    by (simp add: logFooter_def number_def digits.simps)
  have "files (deliver (Finished 0) (fold deliver ?evs (startClicked sampleEnv utf8Window)))
          (logName sampleEnv utf8Window)
      = Some (streamEncode utf8Window (logHeader sampleEnv ?cmd)
              @ concat (map (\<lambda>bytes. streamEncode utf8Window (fromLocal8Bit utf8Window bytes))
                          (concat (map reads (?evs @ [Finished 0]))))
              @ streamEncode utf8Window (logFooter 0))"
    by (rule run_log(1) [OF p8 cmd8 _ l8 s8 n8 o8]) simp_all
  then have a: "files (deliver (Finished 0) (fold deliver ?evs (startClicked sampleEnv utf8Window))) ?fn
      = Some (?head @ ''caf'' @ replacementChar @ replacementChar @ ''!'' @ nl @ ''[exit] 0'' @ nl)"
    unfolding fn8 head foot by (simp add: enc8 dec8 utf8Broken_def)
  have b: "''caf'' @ replacementChar @ replacementChar @ ''!'' \<noteq> ''caf'' @ [CHR 0xC3, CHR 0xA9] @ ''!''"
    by (simp add: replacementChar_def)
  define r where "r = deliver (ReadyRead (stdoutData ''a'')) (startClicked sampleEnv ?w)"
  have i: "proc ?w = NotRunning" by (simp add: initialWindow_def)
  have c0: "?cmd \<noteq> []" by simp
  have l: "logOpens sampleEnv (logName sampleEnv ?w)" by (simp add: sampleEnv_def)
  have s: "procStarts sampleEnv ?cmd" by (simp add: sampleEnv_def)
  have idn: "\<And>s. streamEncode ?w s = s" "\<And>s. fromLocal8Bit ?w s = s"
    by (simp_all add: initialWindow_def)
  have fnw: "logName sampleEnv ?w = ?fn"
    by (simp add: sample_logName sampleEnv_def)
  have "run_inv (fromLocal8Bit ?w) (streamEncode ?w) (logName sampleEnv ?w)
          (streamEncode ?w (logHeader sampleEnv ?cmd)) (startClicked sampleEnv ?w)"
    using i sample_command c0 l s by (rule startClicked_run_inv)
  from readyRead_inv [OF this, of "stdoutData ''a''"]
  have inv: "run_inv (fromLocal8Bit ?w) (streamEncode ?w) ?fn (?head @ ''a'') r"
    by (simp add: r_def idn fnw head)
  have "procRequests (startClicked sampleEnv ?w) = []"
    using startClicked_requests [OF i sample_command] by (simp add: initialWindow_def)
  then have rq: "procRequests r = []"
    using readyRead_fields(5) [of "stdoutData ''a''" "startClicked sampleEnv ?w"]
    by (simp add: r_def)
  have run: "proc r \<noteq> NotRunning" using inv by (simp add: run_inv_def)
  have ce: "snd (closeEvent True ?never r)
      = r\<lparr>boxes := boxes r @ [question ''Exit'' ''A test is running. Stop it and exit?''],
           procRequests := procRequests r @ [terminate, kill]\<rparr>"
    using closeEvent_running(3) [OF run, of True ?never] by (simp add: Let_def)
  have c: "closes (CloseEvent True ?never) r"
    using closeEvent_running(1) [OF run, of True ?never] by simp
  have x: "exitOf (CloseEvent True ?never) = None" by simp
  have d: "procRequests (deliver (CloseEvent True ?never) r) = [terminate, kill]"
    by (simp add: ce rq)
  have e: "isOpen (logFile (deliver (CloseEvent True ?never) r))"
    using inv by (simp add: ce run_inv_def)
  have f: "files (deliver (CloseEvent True ?never) r) ?fn = Some (?head @ ''a'')"
    using inv by (simp add: ce run_inv_def)
  from a b c x d e f show ?thesis unfolding r_def append_assoc by (intro conjI)
qed

text \<open>
  Claim C7. \<^verbatim>\<open>startClicked\<close> while the process is not \<open>NotRunning\<close> shows the message
  box \<^verbatim>\<open>Busy\<close> and changes nothing else: no process is started or signalled, no file is
  written, and the log handle, the progress bar, the ETA, the expected duration and the
  run timer stay as they are.
\<close>

theorem startClicked_while_running:
  assumes "proc w \<noteq> NotRunning"
  shows "startClicked env w = showBox (warning ''Busy'' ''A test is already running.'') w
         \<and> boxes (startClicked env w) = boxes w @ [warning ''Busy'' ''A test is already running.'']
         \<and> procStarted (startClicked env w) = procStarted w
         \<and> procRequests (startClicked env w) = procRequests w
         \<and> proc (startClicked env w) = proc w
         \<and> files (startClicked env w) = files w
         \<and> logFile (startClicked env w) = logFile w
         \<and> progress (startClicked env w) = progress w
         \<and> eta (startClicked env w) = eta w
         \<and> expectedSeconds (startClicked env w) = expectedSeconds w
         \<and> runTimer (startClicked env w) = runTimer w"
  using assms by (simp add: startClicked_busy showBox_def)

theorem startClicked_while_running_witness:
  "proc (startClicked sampleEnv (initialWindow 4 ''/home/u'')) \<noteq> NotRunning
   \<and> startClicked sampleEnv (startClicked sampleEnv (initialWindow 4 ''/home/u''))
       = showBox (warning ''Busy'' ''A test is already running.'')
           (startClicked sampleEnv (initialWindow 4 ''/home/u''))
   \<and> procStarted (startClicked sampleEnv (startClicked sampleEnv (initialWindow 4 ''/home/u'')))
       = [[''stress-ng'', ''--cpu'', ''4'', ''--timeout'', ''300s'']]"
proof -
  let ?w = "startClicked sampleEnv (initialWindow 4 ''/home/u'')"
  have h: "proc ?w \<noteq> NotRunning" by (simp add: sample_running)
  have i: "proc (initialWindow 4 ''/home/u'') = NotRunning"
    by (simp add: initialWindow_def)
  have s: "procStarted ?w = [[''stress-ng'', ''--cpu'', ''4'', ''--timeout'', ''300s'']]"
    using startClicked_started(8) [OF i sample_command] 
    by (simp add: sampleEnv_def initialWindow_def)
  from startClicked_while_running [OF h, of sampleEnv] h s show ?thesis
    by (simp add: showBox_def)
qed

text \<open>
  Claim C10. \<^verbatim>\<open>stopClicked\<close> while no process runs leaves the window as it is: no
  message box, no request to the process, no change of the log, the progress bar, the
  buttons or the status bar.
\<close>

theorem stopClicked_when_idle:
  assumes "proc w = NotRunning"
  shows "stopClicked wait w = w"
  using assms by (simp add: stopClicked_def)

theorem stopClicked_when_idle_witness:
  "proc (initialWindow 4 ''/home/u'') = NotRunning
   \<and> stopClicked (\<lambda>ms. \<lparr>delivered = [], exitCode = None\<rparr>) (initialWindow 4 ''/home/u'')
       = initialWindow 4 ''/home/u''"
proof -
  have h: "proc (initialWindow 4 ''/home/u'') = NotRunning"
    by (simp add: initialWindow_def)
  from stopClicked_when_idle [OF h] h show ?thesis by simp
qed

lemma stopClicked_requests:
  assumes "proc w \<noteq> NotRunning"
  shows "procRequests (stopClicked wait w)
           = procRequests w @ (case exitCode (wait 3000) of Some rc \<Rightarrow> [terminate]
                               | None \<Rightarrow> [terminate, kill])"
    and "exitCode (wait 3000) = None \<Longrightarrow> proc (stopClicked wait w) = proc w"
  by (simp_all add: stopClicked_running [OF assms] Let_def finished_requests split: option.splits)

text \<open>
  Claim C8. \<^verbatim>\<open>stopClicked\<close> while a process runs first calls \<^verbatim>\<open>proc.terminate()\<close>.
  When \<^verbatim>\<open>proc.waitForFinished(3000)\<close> runs out of time it then calls \<^verbatim>\<open>proc.kill()\<close>
  and the process is still running; once \<^verbatim>\<open>finished\<close> arrives, with whatever code
  and after whatever other events, the supervisor is idle. When the process ends within the wait, only \<^verbatim>\<open>terminate\<close> is
  called and the supervisor is idle when the handler returns. That the wait is measured in
  real time, and that a killed process does end, is the system's part.
\<close>

theorem stopClicked_terminate_then_kill:
  assumes "proc w \<noteq> NotRunning"
  shows "(exitCode (wait 3000) = None \<longrightarrow>
            procRequests (stopClicked wait w) = procRequests w @ [terminate, kill]
            \<and> proc (stopClicked wait w) = proc w
            \<and> idle_state (finished rc (fold deliver evs (stopClicked wait w))))
         \<and> (exitCode (wait 3000) = Some rc \<longrightarrow>
            procRequests (stopClicked wait w) = procRequests w @ [terminate]
            \<and> idle_state (stopClicked wait w))"
proof (intro conjI impI)
  assume n: "exitCode (wait 3000) = None"
  show "procRequests (stopClicked wait w) = procRequests w @ [terminate, kill]"
    using stopClicked_requests(1) [OF assms, of wait] n by simp
  show "proc (stopClicked wait w) = proc w"
    using stopClicked_requests(2) [OF assms, of wait] n by simp
  show "idle_state (finished rc (fold deliver evs (stopClicked wait w)))"
    by (rule finished_idle)
next
  assume s: "exitCode (wait 3000) = Some rc"
  show "procRequests (stopClicked wait w) = procRequests w @ [terminate]"
    using stopClicked_requests(1) [OF assms, of wait] s by simp
  have "idle_state (finished rc (fold readyRead (delivered (wait 3000))
          (w\<lparr>outputView := outputView w @
                [append (nl @ ''Stopping'' @ ellipsis @ '' attempting graceful termination.'')],
              procRequests := procRequests w @ [terminate]\<rparr>)))"
    by (rule finished_idle)
  then show "idle_state (stopClicked wait w)"
    by (simp add: stopClicked_running [OF assms] s Let_def idle_state_def)
qed

theorem stopClicked_terminate_then_kill_witness:
  "proc (startClicked sampleEnv (initialWindow 4 ''/home/u'')) \<noteq> NotRunning
   \<and> exitCode ((\<lambda>ms::nat. \<lparr>delivered = [], exitCode = (if ms < 5000 then None else Some 0)\<rparr>) 3000) = None
   \<and> procRequests (stopClicked
         (\<lambda>ms::nat. \<lparr>delivered = [], exitCode = (if ms < 5000 then None else Some 0)\<rparr>)
         (startClicked sampleEnv (initialWindow 4 ''/home/u''))) = [terminate, kill]
   \<and> idle_state (finished 9 (stopClicked
         (\<lambda>ms::nat. \<lparr>delivered = [], exitCode = (if ms < 5000 then None else Some 0)\<rparr>)
         (startClicked sampleEnv (initialWindow 4 ''/home/u''))))
   \<and> exitCode ((\<lambda>ms::nat. \<lparr>delivered = [], exitCode = (if ms < 1000 then None else Some 15)\<rparr>) 3000)
       = Some 15
   \<and> procRequests (stopClicked
         (\<lambda>ms::nat. \<lparr>delivered = [], exitCode = (if ms < 1000 then None else Some 15)\<rparr>)
         (startClicked sampleEnv (initialWindow 4 ''/home/u''))) = [terminate]
   \<and> idle_state (stopClicked
         (\<lambda>ms::nat. \<lparr>delivered = [], exitCode = (if ms < 1000 then None else Some 15)\<rparr>)
         (startClicked sampleEnv (initialWindow 4 ''/home/u'')))"
proof -
  let ?w = "startClicked sampleEnv (initialWindow 4 ''/home/u'')"
  let ?slow = "\<lambda>ms::nat. \<lparr>delivered = [], exitCode = (if ms < 5000 then None else Some 0)\<rparr>"
  let ?fast = "\<lambda>ms::nat. \<lparr>delivered = [], exitCode = (if ms < 1000 then None else Some 15)\<rparr>"
  have h: "proc ?w \<noteq> NotRunning" by (simp add: sample_running)
  have i: "proc (initialWindow 4 ''/home/u'') = NotRunning"
    by (simp add: initialWindow_def)
  have r: "procRequests ?w = []"
    using startClicked_requests [OF i sample_command] by (simp add: initialWindow_def)
  have a: "exitCode (?slow 3000) = None" by simp
  have b: "exitCode (?fast 3000) = Some 15" by simp
  note t1 = stopClicked_terminate_then_kill [OF h, where wait = ?slow and rc = 9 and evs = "[]"]
  note t2 = stopClicked_terminate_then_kill [OF h, where wait = ?fast and rc = 15 and evs = "[]"]
  from t1 a r have c1: "procRequests (stopClicked ?slow ?w) = [terminate, kill]"
    and c2: "idle_state (finished 9 (stopClicked ?slow ?w))"
    by simp_all
  from t2 b r have c3: "procRequests (stopClicked ?fast ?w) = [terminate]"
    and c4: "idle_state (stopClicked ?fast ?w)"
    by simp_all
  from h a b c1 c2 c3 c4 show ?thesis by simp
qed

lemma buildCommand_cases:
  "(fst (fst (buildCommand env w)) \<noteq> [] \<and> snd (buildCommand env w) = w)
   \<or> (fst (buildCommand env w) = noCommand \<and> (\<exists>b. snd (buildCommand env w) = showBox b w))"
proof (cases "checked w")
  case rbCpu
  then show ?thesis by (cases "which env ''stress-ng''") (auto simp: buildCommand_def need_def noCommand_def Let_def)
next
  case rbRam
  then show ?thesis by (cases "which env ''stress-ng''") (auto simp: buildCommand_def need_def noCommand_def Let_def)
next
  case rbGpu
  then show ?thesis by (cases "which env ''glmark2''") (auto simp: buildCommand_def need_def noCommand_def Let_def)
next
  case rbDisk
  then show ?thesis by (cases "which env ''fio''") (auto simp: buildCommand_def need_def noCommand_def Let_def)
next
  case rbNet
  then show ?thesis by (cases "which env ''iperf3''") (auto simp: buildCommand_def need_def noCommand_def Let_def)
qed

lemma showBox_idle: "idle_state (showBox b w) = idle_state w"
  by (simp add: idle_state_def showBox_def)

text \<open>
  The other failures of a start are reported and leave the window as it was: a missing
  tool or a blank server address shows a message box and changes nothing else; a log file
  that cannot be opened shows \<^verbatim>\<open>Logging Error\<close> and only gives the closed log handle
  its new name.
\<close>

lemma startClicked_reported_failures:
  assumes "proc w = NotRunning"
  shows "fst (fst (buildCommand env w)) = [] \<Longrightarrow>
           (\<exists>b. startClicked env w = showBox b w)"
    and "fst (fst (buildCommand env w)) \<noteq> [] \<Longrightarrow> \<not> logOpens env (logName env w) \<Longrightarrow>
           startClicked env w =
             showBox (critical ''Logging Error'' (''Cannot write log file: '' @ logName env w))
               (w\<lparr>logFile := \<lparr>fileName = logName env w, isOpen = False\<rparr>\<rparr>)"
proof -
  assume n: "fst (fst (buildCommand env w)) = []"
  then have "\<exists>b. snd (buildCommand env w) = showBox b w"
    using buildCommand_cases [of env w] by auto
  then show "\<exists>b. startClicked env w = showBox b w"
    by (simp add: startClicked_no_command [OF assms n])
next
  assume c: "fst (fst (buildCommand env w)) \<noteq> []" and l: "\<not> logOpens env (logName env w)"
  obtain cmd e w1 where b: "buildCommand env w = ((cmd, e), w1)"
    by (metis prod.exhaust)
  with c have ne: "cmd \<noteq> []" by simp
  have "w1 = w" using b ne by (rule buildCommand_same_window)
  with b have b': "buildCommand env w = ((cmd, e), w)" by simp
  show "startClicked env w =
             showBox (critical ''Logging Error'' (''Cannot write log file: '' @ logName env w))
               (w\<lparr>logFile := \<lparr>fileName = logName env w, isOpen = False\<rparr>\<rparr>)"
    using assms b' ne l by (rule startClicked_log_failure)
qed

lemma buildCommand_blank_server:
  assumes "checked w = rbNet" "\<forall>c \<in> set (netServer w). isSpace c"
  shows "buildCommand env w =
           (noCommand,
            showBox (if which env ''iperf3''
                     then warning ''Input Error'' ''Please enter the iperf3 server IP.''
                     else critical ''Missing Dependency''
                            ([CHR 0x27] @ ''iperf3'' @ [CHR 0x27] @ '' not found.'' @ nl
                             @ ''Install with:'' @ nl @ ''  sudo apt install '' @ ''iperf3'')) w)"
  using assms(1) trimmed_blank [OF assms(2)]
  by (simp add: buildCommand_def need_def Let_def showBox_def)

text \<open>
  Claim C6, as amended. Start with the network test selected, a server address that is
  empty or all white space, and no process running. When \<^verbatim>\<open>iperf3\<close> is found the
  message box \<^verbatim>\<open>Input Error\<close> is shown; when it is not found the dependency check, which
  comes first, shows \<^verbatim>\<open>Missing Dependency\<close> instead. In both cases no command is built,
  the only change to the window is the message box: no process is started, no file is
  created or written, the log handle is untouched and the buttons stay as they are.
\<close>

theorem startClicked_blank_server:
  assumes "checked w = rbNet"
    and "\<forall>c \<in> set (netServer w). isSpace c"
    and "proc w = NotRunning"
  shows "(which env ''iperf3'' \<longrightarrow>
            startClicked env w
              = showBox (warning ''Input Error'' ''Please enter the iperf3 server IP.'') w)
         \<and> (\<not> which env ''iperf3'' \<longrightarrow>
            startClicked env w
              = showBox (critical ''Missing Dependency''
                  ([CHR 0x27] @ ''iperf3'' @ [CHR 0x27] @ '' not found.'' @ nl
                   @ ''Install with:'' @ nl @ ''  sudo apt install '' @ ''iperf3'')) w)
         \<and> fst (buildCommand env w) = noCommand
         \<and> proc (startClicked env w) = NotRunning
         \<and> procStarted (startClicked env w) = procStarted w
         \<and> files (startClicked env w) = files w
         \<and> logFile (startClicked env w) = logFile w
         \<and> btnStart (startClicked env w) = btnStart w
         \<and> btnStop (startClicked env w) = btnStop w"
proof -
  note b = buildCommand_blank_server [OF assms(1,2), of env]
  have n: "fst (fst (buildCommand env w)) = []"
    by (simp add: b noCommand_def)
  have s: "startClicked env w = snd (buildCommand env w)"
    using assms(3) n by (rule startClicked_no_command)
  show ?thesis
    using assms(3) by (simp add: s b showBox_def)
qed

theorem startClicked_blank_server_witness:
  "checked ((initialWindow 4 ''/home/u'')\<lparr>checked := rbNet, netServer := ''  ''\<rparr>) = rbNet
   \<and> isSpace CHR '' ''
   \<and> proc ((initialWindow 4 ''/home/u'')\<lparr>checked := rbNet, netServer := ''  ''\<rparr>) = NotRunning
   \<and> which sampleEnv ''iperf3''
   \<and> startClicked sampleEnv ((initialWindow 4 ''/home/u'')\<lparr>checked := rbNet, netServer := ''  ''\<rparr>)
       = showBox (warning ''Input Error'' ''Please enter the iperf3 server IP.'')
           ((initialWindow 4 ''/home/u'')\<lparr>checked := rbNet, netServer := ''  ''\<rparr>)
   \<and> \<not> which (sampleEnv\<lparr>which := \<lambda>exe. False\<rparr>) ''iperf3''
   \<and> startClicked (sampleEnv\<lparr>which := \<lambda>exe. False\<rparr>)
         ((initialWindow 4 ''/home/u'')\<lparr>checked := rbNet, netServer := ''  ''\<rparr>)
       = showBox (critical ''Missing Dependency''
                  ([CHR 0x27] @ ''iperf3'' @ [CHR 0x27] @ '' not found.'' @ nl
                   @ ''Install with:'' @ nl @ ''  sudo apt install '' @ ''iperf3''))
           ((initialWindow 4 ''/home/u'')\<lparr>checked := rbNet, netServer := ''  ''\<rparr>)
   \<and> files (startClicked sampleEnv
         ((initialWindow 4 ''/home/u'')\<lparr>checked := rbNet, netServer := ''  ''\<rparr>)) = Map.empty"
proof -
  let ?w = "(initialWindow 4 ''/home/u'')\<lparr>checked := rbNet, netServer := ''  ''\<rparr>"
  have h1: "checked ?w = rbNet" by simp
  have sp: "isSpace CHR '' ''" by (simp add: isSpace_def)
  have h2: "\<forall>c \<in> set (netServer ?w). isSpace c" using sp by simp
  have h3: "proc ?w = NotRunning" by (simp add: initialWindow_def)
  have a: "which sampleEnv ''iperf3''" by (simp add: sampleEnv_def)
  have b: "\<not> which (sampleEnv\<lparr>which := \<lambda>exe. False\<rparr>) ''iperf3''" by simp
  have f: "files ?w = Map.empty" by (simp add: initialWindow_def)
  note t1 = startClicked_blank_server [OF h1 h2 h3, of sampleEnv]
  note t2 = startClicked_blank_server [OF h1 h2 h3, of "sampleEnv\<lparr>which := \<lambda>exe. False\<rparr>"]
  from t1 a have c1: "startClicked sampleEnv ?w
       = showBox (warning ''Input Error'' ''Please enter the iperf3 server IP.'') ?w"
    by blast
  from t2 b have c2: "startClicked (sampleEnv\<lparr>which := \<lambda>exe. False\<rparr>) ?w
       = showBox (critical ''Missing Dependency''
                  ([CHR 0x27] @ ''iperf3'' @ [CHR 0x27] @ '' not found.'' @ nl
                   @ ''Install with:'' @ nl @ ''  sudo apt install '' @ ''iperf3'')) ?w"
    by blast
  from t1 f have c3: "files (startClicked sampleEnv ?w) = Map.empty"
    by simp
  from h1 sp h3 a c1 b c2 c3 show ?thesis by blast
qed

text \<open>
  With no tool installed and the server address empty, the one message box shown is
  \<^verbatim>\<open>Missing Dependency\<close>, not \<^verbatim>\<open>Input Error\<close>.
\<close>

theorem startClicked_blank_server_counterexample:
  "boxes (startClicked (sampleEnv\<lparr>which := \<lambda>exe. False\<rparr>)
            ((initialWindow 4 ''/home/u'')\<lparr>checked := rbNet\<rparr>))
     = [critical ''Missing Dependency''
          ([CHR 0x27] @ ''iperf3'' @ [CHR 0x27] @ '' not found.'' @ nl
           @ ''Install with:'' @ nl @ ''  sudo apt install iperf3'')]"
  by (simp add: startClicked_def buildCommand_def need_def noCommand_def showBox_def
      initialWindow_def)

lemma failing_command:
  "buildCommand (sampleEnv\<lparr>procStarts := \<lambda>cmd. False\<rparr>) (initialWindow 4 ''/home/u'')
     = (([''stress-ng'', ''--cpu'', ''4'', ''--timeout'', ''300s''], Some 300),
        initialWindow 4 ''/home/u'')"
  by (simp add: buildCommand_def need_def sampleEnv_def initialWindow_def Let_def
      number_def digits.simps)

text \<open>
  Whatever the window and the command: when the log file opened and \<^verbatim>\<open>proc.start\<close>
  could not start the child, the handler returns with no process, the log file open, Start
  disabled, Stop enabled and no message box added.
\<close>

lemma startClicked_failed_spawn:
  assumes "proc w = NotRunning" "buildCommand env w = ((cmd, e), w)" "cmd \<noteq> []"
    and "logOpens env (logName env w)" "\<not> procStarts env cmd"
  shows "proc (startClicked env w) = NotRunning"
    and "isOpen (logFile (startClicked env w))"
    and "\<not> btnStart (startClicked env w)"
    and "btnStop (startClicked env w)"
    and "boxes (startClicked env w) = boxes w"
    and "\<not> idle_state (startClicked env w)"
  using startClicked_started [OF assms(1-4)] assms(5) by (simp_all add: idle_state_def)

text \<open>
  Claim C2, at a failing input: the CPU test in the window as built, every tool found, the
  log file opened, and \<^verbatim>\<open>proc.start\<close> failing to start the child. When
  \<^verbatim>\<open>startClicked\<close> returns no process runs, yet the log file is open, Start is disabled,
  Stop is enabled, the status bar says Running, no message box was shown, and a click on
  Stop changes nothing. \<^verbatim>\<open>procFinished\<close>, which would undo this, is only called on
  \<^verbatim>\<open>finished\<close>, which a process that did not start never emits.
\<close>

theorem startClicked_spawn_failure:
  "proc (startClicked (sampleEnv\<lparr>procStarts := \<lambda>cmd. False\<rparr>) (initialWindow 4 ''/home/u''))
     = NotRunning
   \<and> isOpen (logFile (startClicked (sampleEnv\<lparr>procStarts := \<lambda>cmd. False\<rparr>)
        (initialWindow 4 ''/home/u'')))
   \<and> \<not> btnStart (startClicked (sampleEnv\<lparr>procStarts := \<lambda>cmd. False\<rparr>)
        (initialWindow 4 ''/home/u''))
   \<and> btnStop (startClicked (sampleEnv\<lparr>procStarts := \<lambda>cmd. False\<rparr>)
        (initialWindow 4 ''/home/u''))
   \<and> boxes (startClicked (sampleEnv\<lparr>procStarts := \<lambda>cmd. False\<rparr>)
        (initialWindow 4 ''/home/u'')) = []
   \<and> statusBar (startClicked (sampleEnv\<lparr>procStarts := \<lambda>cmd. False\<rparr>)
        (initialWindow 4 ''/home/u'')) = ''Running'' @ ellipsis
   \<and> \<not> idle_state (startClicked (sampleEnv\<lparr>procStarts := \<lambda>cmd. False\<rparr>)
        (initialWindow 4 ''/home/u''))
   \<and> stopClicked wait (startClicked (sampleEnv\<lparr>procStarts := \<lambda>cmd. False\<rparr>)
        (initialWindow 4 ''/home/u''))
      = startClicked (sampleEnv\<lparr>procStarts := \<lambda>cmd. False\<rparr>) (initialWindow 4 ''/home/u'')"
proof -
  let ?env = "sampleEnv\<lparr>procStarts := \<lambda>cmd. False\<rparr>"
  let ?w = "initialWindow 4 ''/home/u''"
  have i: "proc ?w = NotRunning" by (simp add: initialWindow_def)
  have c: "[''stress-ng'', ''--cpu'', ''4'', ''--timeout'', ''300s''] \<noteq> []" by simp
  have l: "logOpens ?env (logName ?env ?w)" by (simp add: sampleEnv_def)
  note s = startClicked_started [OF i failing_command c l]
  have p: "proc (startClicked ?env ?w) = NotRunning" using s(1) by simp
  have b: "boxes (startClicked ?env ?w) = []" using s(6) by (simp add: initialWindow_def)
  have st: "stopClicked wait (startClicked ?env ?w) = startClicked ?env ?w"
    using p by (simp add: stopClicked_def)
  show ?thesis
    using p b st s(2,4,5,7) by (simp add: idle_state_def)
qed

end
